theory Spec2Isabelle
  imports Complex_Main
begin

section \<open>Virtual joystick (vjoy.cpp): data model\<close>

text \<open>
  The embedding follows \<^verbatim>\<open>src/vjoy.cpp\<close>. The C++ \<^verbatim>\<open>float\<close> coordinates are
  modelled by real numbers: every float literal is taken at its decimal value and the
  arithmetic is exact. The model and the code agree wherever no comparison is decided by
  a rounding error; at a point within rounding distance of a sector boundary, of a rim
  chord or of the rim itself they may differ, and no statement below is about such a
  point. The process-wide globals of the file are the fields of one
  record that every operation takes and returns. A failed \<^verbatim>\<open>assert\<close> and a
  dereference of the null \<^verbatim>\<open>ppads\<close> pointer are error values.
\<close>

subsection \<open>Geometry helpers\<close>

record Point =
  px :: real
  py :: real

definition mkPoint :: "real \<Rightarrow> real \<Rightarrow> Point" where
  "mkPoint x y = \<lparr>px = x, py = y\<rparr>"

definition Point_add :: "Point \<Rightarrow> Point \<Rightarrow> Point" where
  "Point_add l r = mkPoint (px l + px r) (py l + py r)"

definition Point_sub :: "Point \<Rightarrow> Point \<Rightarrow> Point" where
  "Point_sub l r = mkPoint (px l - px r) (py l - py r)"

definition Point_mul :: "Point \<Rightarrow> real \<Rightarrow> Point" where
  "Point_mul l k = mkPoint (k * px l) (k * py l)"

record Rect =
  rx :: real
  ry :: real
  rw :: real
  rh :: real

definition mkRect :: "real \<Rightarrow> real \<Rightarrow> real \<Rightarrow> real \<Rightarrow> Rect" where
  "mkRect x y w h = \<lparr>rx = x, ry = y, rw = w, rh = h\<rparr>"

definition Rect_centred :: "Point \<Rightarrow> real \<Rightarrow> real \<Rightarrow> Rect" where
  "Rect_centred p w h = mkRect (px p - w / 2) (py p - h / 2) w h"

definition Rect_point_in :: "Rect \<Rightarrow> Point \<Rightarrow> bool" where
  "Rect_point_in r p =
     (\<not> (px p < rx r \<or> rx r + rw r < px p \<or> py p < ry r \<or> ry r + rh r < py p))"

text \<open>Conversion of a \<^verbatim>\<open>float\<close> to \<^verbatim>\<open>int\<close> truncates towards zero.\<close>

definition float_to_int :: "real \<Rightarrow> int" where
  "float_to_int r = (if 0 \<le> r then \<lfloor>r\<rfloor> else \<lceil>r\<rceil>)"

definition to_screen_coord :: "int \<Rightarrow> int \<Rightarrow> Rect \<Rightarrow> int \<times> int \<times> int \<times> int" where
  "to_screen_coord SCREEN_WIDTH SCREEN_HEIGHT r =
     (float_to_int (of_int SCREEN_WIDTH * rx r),
      float_to_int (of_int SCREEN_HEIGHT * ry r),
      float_to_int (of_int SCREEN_WIDTH * (rx r + rw r)),
      float_to_int (of_int SCREEN_HEIGHT * (ry r + rh r)))"

datatype NXColor = NXColor nat nat nat

text \<open>
  The calls of the rendering primitives, in the order they are made. The arguments are
  the values the caller computes.
\<close>

datatype DrawCmd =
    FillRect int int int int NXColor
  | DrawRect int int int int NXColor
  | DrawLine real real real real NXColor

definition draw_fill_rect :: "int \<Rightarrow> int \<Rightarrow> Rect \<Rightarrow> NXColor \<Rightarrow> DrawCmd list" where
  "draw_fill_rect W H r c =
     (case to_screen_coord W H r of (x1, y1, x2, y2) \<Rightarrow> [FillRect x1 y1 x2 y2 c])"

definition draw_thick_rect :: "int \<Rightarrow> int \<Rightarrow> Rect \<Rightarrow> NXColor \<Rightarrow> DrawCmd list" where
  "draw_thick_rect W H r c =
     (case to_screen_coord W H r of (x1, y1, x2, y2) \<Rightarrow> [DrawRect x1 y1 x2 y2 c])"

definition draw_thin_rect :: "int \<Rightarrow> int \<Rightarrow> Rect \<Rightarrow> NXColor \<Rightarrow> DrawCmd list" where
  "draw_thin_rect W H r c =
     (case to_screen_coord W H r of (x1, y1, x2, y2) \<Rightarrow>
        [DrawLine (of_int x1) (of_int y1) (of_int x2) (of_int y1) c,
         DrawLine (of_int x1) (of_int y2) (of_int x2) (of_int y2) c,
         DrawLine (of_int x1) (of_int y1) (of_int x1) (of_int y2) c,
         DrawLine (of_int x2) (of_int y1) (of_int x2) (of_int y2) c])"

subsection \<open>The triangle of a wheel sector\<close>

record Tri =
  tri_a :: Point
  tri_b :: Point
  tri_c :: Point

text \<open>The macro \<^verbatim>\<open>P(a)\<close> of the constructor: \<^verbatim>\<open>double(a) * M_PI / 8.0\<close>.\<close>

definition P :: "int \<Rightarrow> real" where
  "P a = of_int a * pi / 8"

definition mkTri :: "Point \<Rightarrow> real \<Rightarrow> int \<Rightarrow> int \<Rightarrow> Tri" where
  "mkTri a sz rb rc =
     \<lparr>tri_a = a,
      tri_b = Point_add (Point_mul (mkPoint (cos (P rb)) (sin (P rb))) sz) a,
      tri_c = Point_add (Point_mul (mkPoint (cos (P rc)) (sin (P rc))) sz) a\<rparr>"

definition Tri_sign :: "Point \<Rightarrow> Point \<Rightarrow> Point \<Rightarrow> real" where
  "Tri_sign p1 p2 p3 =
     (px p1 - px p3) * (py p2 - py p3) - (px p2 - px p3) * (py p1 - py p3)"

definition Tri_in :: "Tri \<Rightarrow> Point \<Rightarrow> bool" where
  "Tri_in t pt =
     (let b1 = (Tri_sign pt (tri_a t) (tri_b t) < 0);
          b2 = (Tri_sign pt (tri_b t) (tri_c t) < 0);
          b3 = (Tri_sign pt (tri_c t) (tri_a t) < 0)
      in (b1 = b2) \<and> (b2 = b3))"

subsection \<open>Enumerations\<close>

datatype Mode = ETOUCH | EGESTURE | EBOTH

text \<open>
  The game modes, in the order of the \<^verbatim>\<open>pads\<close> table (\<^verbatim>\<open>NUM_GAMEMODES\<close> entries).
\<close>

datatype GameModes =
    GM_NONE | GM_NORMAL | GM_INVENTORY | GM_MAP_SYSTEM | GM_ISLAND
  | GM_CREDITS | GM_INTRO | GM_TITLE | GM_PAUSED | GM_OPTIONS

datatype SpecScreens = ETextBox | ESaveLoad | EYesNo | EStageSelect1 | EStageSelect2

text \<open>
  \<^verbatim>\<open>Settings::Tap::Place\<close>: the context keys that \<^verbatim>\<open>vjoy.cpp\<close> passes to the lookup.
\<close>

datatype Place =
    Tap_EInventory | Tap_EMapSystem | Tap_EMovies | Tap_ETitle
  | Tap_EPause | Tap_EOptions | Tap_EIngameDialog | Tap_ESaveLoad

text \<open>
  The value stored in \<^verbatim>\<open>settings->tap[place]\<close>: one of the three enumerators the
  \<^verbatim>\<open>switch\<close> of \<^verbatim>\<open>getModeFromSettings\<close> knows, or any other stored value
  (\<open>Tap_unrecognized\<close> with the raw number), which no \<^verbatim>\<open>case\<close> label matches.
\<close>

datatype TapStyle = Tap_ETAP | Tap_EPAD | Tap_EBOTH | Tap_unrecognized int

datatype SDL_EventType = SDL_FINGERDOWN | SDL_FINGERUP | SDL_FINGERMOTION | SDL_OTHEREVENT

type_synonym SDL_FingerID = int
type_synonym SDL_TouchID = int

record SDL_Event =
  evt_type :: SDL_EventType
  evt_touchId :: SDL_TouchID
  evt_fingerId :: SDL_FingerID
  evt_x :: int
  evt_y :: int

datatype error = AssertionFailed | NullPointer

subsection \<open>The globals\<close>

text \<open>The frame of the context stack (\<^verbatim>\<open>state_t\<close> in \<^verbatim>\<open>specScreenChanged\<close>).\<close>

record state_t =
  st_mode :: Mode
  st_gm :: GameModes
  st_gm_draw :: bool
  st_normal_textbox_mode :: bool

text \<open>
  \<open>lastFingerPos\<close> is a \<^verbatim>\<open>std::map\<close>: an association list kept in ascending key
  order, which is the order its iterators visit the entries. \<open>ignoredFingers\<close> is a
  \<^verbatim>\<open>std::set\<close>. \<open>ppads\<close> tells whether the pointer \<^verbatim>\<open>ppads\<close> has been set to the
  table \<^verbatim>\<open>pads\<close> (it starts as \<^verbatim>\<open>NULL\<close>). \<open>disable_draw\<close> holds the flag of each
  pad of the table, \<open>textbox_mode\<close> the flag of \<^verbatim>\<open>normalModePad\<close>, \<open>states\<close> the
  static stack of \<^verbatim>\<open>specScreenChanged\<close> (top first), \<open>taps\<close> the buffer of the gesture
  observer, \<open>sGO\<close> whether an observer is registered. The last fields are what the
  collaborators answer: \<open>gesture_recognizer\<close> is the last value passed to
  \<^verbatim>\<open>toggleGestureRecognizer\<close>, \<open>gamemode\<close> is the result of \<^verbatim>\<open>getGamemode()\<close>,
  \<open>settings_tap\<close> is \<^verbatim>\<open>settings->tap\<close>, \<open>SDL_GetTouch\<close> gives the resolution of a
  touch device or \<open>None\<close> for a null pointer.
\<close>

record vjoy =
  lastFingerPos :: "(SDL_FingerID \<times> Point) list"
  ignoredFingers :: "SDL_FingerID set"
  vjoy_mode :: Mode
  vjoy_enabled :: bool
  vjoy_visible :: bool
  xres :: real
  yres :: real
  inputs :: "bool list"
  pressed :: "bool list"
  ppads :: bool
  disable_draw :: "GameModes \<Rightarrow> bool"
  textbox_mode :: bool
  states :: "state_t list"
  taps :: "Point list"
  sGO :: bool
  gesture_recognizer :: bool
  gamemode :: GameModes
  settings_tap :: "Place \<Rightarrow> TapStyle"
  SDL_GetTouch :: "SDL_TouchID \<Rightarrow> (real \<times> real) option"

text \<open>The operations of \<^verbatim>\<open>std::map\<close> that the file uses.\<close>

fun map_assign :: "SDL_FingerID \<Rightarrow> Point \<Rightarrow> (SDL_FingerID \<times> Point) list
    \<Rightarrow> (SDL_FingerID \<times> Point) list" where
  "map_assign k v [] = [(k, v)]"
| "map_assign k v ((k', v') # xs) =
     (if k < k' then (k, v) # (k', v') # xs
      else if k = k' then (k, v) # xs
      else (k', v') # map_assign k v xs)"

definition map_erase :: "SDL_FingerID \<Rightarrow> (SDL_FingerID \<times> Point) list
    \<Rightarrow> (SDL_FingerID \<times> Point) list" where
  "map_erase k xs = filter (\<lambda>e. fst e \<noteq> k) xs"

definition tracked :: "vjoy \<Rightarrow> SDL_FingerID set" where
  "tracked s = fst ` set (lastFingerPos s)"

section \<open>Touch mode\<close>

text \<open>
  Modelled from the spec: \<^verbatim>\<open>config.h\<close>, which defines or leaves undefined the macro
  \<^verbatim>\<open>CONFIG_USE_TAPS\<close>, is missing. The spec describes the build in which setting the
  mode toggles the gesture recognizer, that is the one with the macro defined.
\<close>

definition CONFIG_USE_TAPS :: bool where
  "CONFIG_USE_TAPS = True"

definition toggleGestureRecognizer :: "bool \<Rightarrow> vjoy \<Rightarrow> vjoy" where
  "toggleGestureRecognizer enabled s = s\<lparr>gesture_recognizer := enabled\<rparr>"

definition setMode :: "Mode \<Rightarrow> vjoy \<Rightarrow> vjoy" where
  "setMode newmode s =
     (if newmode = vjoy_mode s then s
      else
        (let s1 = s\<lparr>vjoy_mode := newmode\<rparr> in
         if CONFIG_USE_TAPS then
           (let s2 = toggleGestureRecognizer (vjoy_mode s1 \<noteq> ETOUCH) s1 in
            if vjoy_mode s2 = EGESTURE then s2\<lparr>lastFingerPos := []\<rparr> else s2)
         else s1))"

definition getMode :: "vjoy \<Rightarrow> Mode" where
  "getMode s = vjoy_mode s"

definition getModeFromSettings :: "Place \<Rightarrow> vjoy \<Rightarrow> error + Mode" where
  "getModeFromSettings place s =
     (case settings_tap s place of
        Tap_ETAP \<Rightarrow> Inr EGESTURE
      | Tap_EPAD \<Rightarrow> Inr ETOUCH
      | Tap_EBOTH \<Rightarrow> Inr EBOTH
      | Tap_unrecognized v \<Rightarrow> Inl AssertionFailed)"

section \<open>Virtual keys and the wheel\<close>

definition col_released :: NXColor where
  "col_released = NXColor 0xff 0xcf 0x33"

definition col_pressed :: NXColor where
  "col_pressed = NXColor 0xff 0x00 0x00"

definition seg_size :: real where
  "seg_size = 0.13"

definition seg_center :: Point where
  "seg_center = mkPoint 0.82 0.82"

definition seg_count :: nat where
  "seg_count = 8"

definition segments :: "Tri list" where
  "segments =
     [mkTri seg_center seg_size (-1) 1,
      mkTri seg_center seg_size 1 3,
      mkTri seg_center seg_size 3 5,
      mkTri seg_center seg_size 5 7,
      mkTri seg_center seg_size 7 (-7),
      mkTri seg_center seg_size (-7) (-5),
      mkTri seg_center seg_size (-5) (-3),
      mkTri seg_center seg_size (-3) (-1)]"

text \<open>The loop \<^verbatim>\<open>for (i = 0; i < seg_count; ++i) pressed[i] = segments[i].in(p)\<close>.\<close>

fun Pad_press_loop :: "nat \<Rightarrow> nat \<Rightarrow> Point \<Rightarrow> bool list \<Rightarrow> bool list" where
  "Pad_press_loop 0 i p pr = pr"
| "Pad_press_loop (Suc n) i p pr =
     Pad_press_loop n (Suc i) p (pr[i := Tri_in (segments ! i) p])"

definition Pad_update_buttons :: "Point \<Rightarrow> vjoy \<Rightarrow> vjoy" where
  "Pad_update_buttons p s =
     (let vec = Point_sub p seg_center;
          r2 = px vec * px vec + py vec * py vec
      in if r2 > seg_size * seg_size then s
         else
           (let i0 = (inputs s)[0 := (Tri_in (segments ! 3) p \<or> Tri_in (segments ! 4) p
                                        \<or> Tri_in (segments ! 5) p)];
                i1 = i0[1 := (Tri_in (segments ! 7) p \<or> Tri_in (segments ! 0) p
                               \<or> Tri_in (segments ! 1) p)];
                i2 = i1[2 := (Tri_in (segments ! 5) p \<or> Tri_in (segments ! 6) p
                               \<or> Tri_in (segments ! 7) p)];
                i3 = i2[3 := (Tri_in (segments ! 1) p \<or> Tri_in (segments ! 2) p
                               \<or> Tri_in (segments ! 3) p)]
            in s\<lparr>inputs := i3, pressed := Pad_press_loop seg_count 0 p (pressed s)\<rparr>))"

fun Pad_draw_loop :: "int \<Rightarrow> int \<Rightarrow> Tri list \<Rightarrow> bool list \<Rightarrow> nat \<Rightarrow> DrawCmd list" where
  "Pad_draw_loop W H [] pr i = []"
| "Pad_draw_loop W H (t # ts) pr i =
     (let a = seg_center; b = tri_b t; c = tri_c t;
          color = (if pr ! i then col_pressed else col_released)
      in [DrawLine (px a * of_int W) (py a * of_int H) (px b * of_int W) (py b * of_int H) color,
          DrawLine (px b * of_int W) (py b * of_int H) (px c * of_int W) (py c * of_int H) color]
         @ Pad_draw_loop W H ts pr (Suc i))"

definition Pad_draw :: "int \<Rightarrow> int \<Rightarrow> vjoy \<Rightarrow> DrawCmd list" where
  "Pad_draw W H s = Pad_draw_loop W H segments (pressed s) 0"

definition INPUT_COUNT :: nat where
  "INPUT_COUNT = 26"

definition FIREKEY :: nat where
  "FIREKEY = 5"

definition vkeys :: "Rect list" where
  "vkeys =
     [mkRect (-1) 0.8 0.1 0.1,
      mkRect (-1) 0.8 0.1 0.1,
      mkRect (-1) 0.7 0.1 0.1,
      mkRect (-1) 0.9 0.1 0.1,
      mkRect 0.00 0.8 0.14 0.2,
      mkRect 0.15 0.8 0.14 0.2,
      mkRect 0.00 0.55 0.1 0.1,
      mkRect 0.15 0.55 0.1 0.1,
      mkRect 0.00 0.0 0.1 0.1,
      mkRect 0.15 0.0 0.1 0.1,
      mkRect 0.40 0.0 0.1 0.1,
      mkRect 0.55 0.0 0.1 0.1,
      mkRect 0.70 0.0 0.1 0.1,
      mkRect 0.85 0.0 0.1 0.1,
      mkRect (-1) (-1) (-1) (-1),
      mkRect (-1) (-1) (-1) (-1),
      mkRect (-1) (-1) (-1) (-1),
      mkRect (-1) (-1) (-1) (-1),
      mkRect (-1) (-1) (-1) (-1),
      mkRect (-1) (-1) (-1) (-1),
      mkRect (-1) (-1) (-1) (-1),
      mkRect (-1) (-1) (-1) (-1),
      mkRect (-1) (-1) (-1) (-1),
      mkRect (-1) (-1) (-1) (-1),
      mkRect (-1) (-1) (-1) (-1),
      mkRect (-1) (-1) (-1) (-1)]"

text \<open>
  The loop over the table in \<^verbatim>\<open>VKeys::update_buttons\<close>; the index \<open>i\<close> runs with the
  entries.
\<close>

fun vkeys_loop :: "Rect list \<Rightarrow> nat \<Rightarrow> Point \<Rightarrow> bool list \<Rightarrow> bool list" where
  "vkeys_loop [] i p inp = inp"
| "vkeys_loop (r # rs) i p inp =
     vkeys_loop rs (Suc i) p
       (if rx r < 0 then inp
        else if Rect_point_in r p then inp[i := True]
        else inp)"

definition VKeys_update_buttons :: "Point \<Rightarrow> vjoy \<Rightarrow> vjoy" where
  "VKeys_update_buttons p s =
     Pad_update_buttons p (s\<lparr>inputs := vkeys_loop vkeys 0 p (inputs s)\<rparr>)"

fun vkeys_draw_loop :: "int \<Rightarrow> int \<Rightarrow> Rect list \<Rightarrow> nat \<Rightarrow> bool list \<Rightarrow> DrawCmd list" where
  "vkeys_draw_loop W H [] i inp = []"
| "vkeys_draw_loop W H (vkey # rs) i inp =
     (if rx vkey < 0 then []
      else draw_thin_rect W H vkey (if inp ! i then col_pressed else col_released))
     @ vkeys_draw_loop W H rs (Suc i) inp"

definition VKeys_draw :: "int \<Rightarrow> int \<Rightarrow> vjoy \<Rightarrow> DrawCmd list" where
  "VKeys_draw W H s = vkeys_draw_loop W H vkeys 0 (inputs s) @ Pad_draw W H s"

section \<open>Gesture observer\<close>

definition GestureObserver_tap :: "real \<Rightarrow> real \<Rightarrow> vjoy \<Rightarrow> vjoy" where
  "GestureObserver_tap x y s = s\<lparr>taps := taps s @ [mkPoint x y]\<rparr>"

definition GestureObserver_wasTap_rect :: "Rect \<Rightarrow> vjoy \<Rightarrow> bool" where
  "GestureObserver_wasTap_rect rect s = list_ex (\<lambda>p. Rect_point_in rect p) (taps s)"

definition GestureObserver_wasTap :: "vjoy \<Rightarrow> bool" where
  "GestureObserver_wasTap s = (taps s \<noteq> [])"

definition flushEvents :: "vjoy \<Rightarrow> vjoy" where
  "flushEvents s = s\<lparr>taps := []\<rparr>"

text \<open>The bridge of \<^verbatim>\<open>touch_control.cpp\<close>: a tap reaches the observer when one is registered.\<close>

definition registerGetureObserver :: "vjoy \<Rightarrow> vjoy" where
  "registerGetureObserver s = s\<lparr>sGO := True\<rparr>"

definition tap :: "real \<Rightarrow> real \<Rightarrow> vjoy \<Rightarrow> vjoy" where
  "tap x y s = (if sGO s then GestureObserver_tap x y s else s)"

section \<open>Finger tracking\<close>

definition ignoreAllCurrentFingers :: "vjoy \<Rightarrow> vjoy" where
  "ignoreAllCurrentFingers s =
     s\<lparr>ignoredFingers := fold (\<lambda>e ig. insert (fst e) ig) (lastFingerPos s) (ignoredFingers s),
       lastFingerPos := []\<rparr>"

definition InjectInputEvent :: "SDL_Event \<Rightarrow> vjoy \<Rightarrow> vjoy" where
  "InjectInputEvent evt s =
     (if \<not> vjoy_enabled s then s
      else if evt_type evt = SDL_FINGERUP then
        s\<lparr>lastFingerPos := map_erase (evt_fingerId evt) (lastFingerPos s),
          ignoredFingers := ignoredFingers s - {evt_fingerId evt}\<rparr>
      else if vjoy_mode s = EGESTURE then s
      else
        (case (if xres s < 0
               then (case SDL_GetTouch s (evt_touchId evt) of
                       Some st \<Rightarrow> Some (s\<lparr>xres := fst st, yres := snd st\<rparr>)
                     | None \<Rightarrow> None)
               else Some s) of
           None \<Rightarrow> s
         | Some s1 \<Rightarrow>
             (let p = mkPoint (of_int (evt_x evt) / xres s1) (of_int (evt_y evt) / yres s1)
              in if evt_fingerId evt \<notin> ignoredFingers s1
                 then s1\<lparr>lastFingerPos := map_assign (evt_fingerId evt) p (lastFingerPos s1)\<rparr>
                 else s1)))"

section \<open>Mode pads\<close>

definition DefaultControl_update_buttons :: "Point \<Rightarrow> vjoy \<Rightarrow> vjoy" where
  "DefaultControl_update_buttons p s = VKeys_update_buttons p s"

definition DefaultControl_draw :: "int \<Rightarrow> int \<Rightarrow> vjoy \<Rightarrow> DrawCmd list" where
  "DefaultControl_draw W H s = (if EGESTURE = getMode s then [] else VKeys_draw W H s)"

definition NormalModePad_update_buttons :: "Point \<Rightarrow> vjoy \<Rightarrow> vjoy" where
  "NormalModePad_update_buttons p s =
     (if textbox_mode s then s\<lparr>inputs := (inputs s)[FIREKEY := True]\<rparr>
      else DefaultControl_update_buttons p s)"

text \<open>
  The virtual methods, selected by the entry of the \<^verbatim>\<open>pads\<close> table. The paused and the
  options pad go through \<^verbatim>\<open>ppads[GM_NORMAL]\<close>, whose \<^verbatim>\<open>update_buttons\<close> is that of
  \<^verbatim>\<open>NormalModePad\<close> and whose \<^verbatim>\<open>draw\<close> is the inherited one of \<^verbatim>\<open>DefaultControl\<close>.
\<close>

fun on_enter :: "GameModes \<Rightarrow> vjoy \<Rightarrow> error + vjoy" where
  "on_enter GM_NONE s = Inr (setMode ETOUCH s)"
| "on_enter GM_NORMAL s = Inr (setMode ETOUCH s)"
| "on_enter GM_INVENTORY s =
     (case getModeFromSettings Tap_EInventory s of Inl e \<Rightarrow> Inl e | Inr m \<Rightarrow> Inr (setMode m s))"
| "on_enter GM_MAP_SYSTEM s =
     (case getModeFromSettings Tap_EMapSystem s of Inl e \<Rightarrow> Inl e | Inr m \<Rightarrow> Inr (setMode m s))"
| "on_enter GM_ISLAND s = Inr s"
| "on_enter GM_CREDITS s = Inr s"
| "on_enter GM_INTRO s =
     (case getModeFromSettings Tap_EMovies s of Inl e \<Rightarrow> Inl e | Inr m \<Rightarrow> Inr (setMode m s))"
| "on_enter GM_TITLE s =
     (case getModeFromSettings Tap_ETitle s of Inl e \<Rightarrow> Inl e | Inr m \<Rightarrow> Inr (setMode m s))"
| "on_enter GM_PAUSED s =
     (case getModeFromSettings Tap_EPause s of Inl e \<Rightarrow> Inl e | Inr m \<Rightarrow> Inr (setMode m s))"
| "on_enter GM_OPTIONS s =
     (case getModeFromSettings Tap_EOptions s of Inl e \<Rightarrow> Inl e | Inr m \<Rightarrow> Inr (setMode m s))"

fun update_buttons :: "GameModes \<Rightarrow> Point \<Rightarrow> vjoy \<Rightarrow> error + vjoy" where
  "update_buttons GM_NORMAL p s = Inr (NormalModePad_update_buttons p s)"
| "update_buttons GM_PAUSED p s =
     (if \<not> ppads s then Inl NullPointer else Inr (NormalModePad_update_buttons p s))"
| "update_buttons GM_OPTIONS p s =
     (if \<not> ppads s then Inl NullPointer else Inr (NormalModePad_update_buttons p s))"
| "update_buttons gm p s = Inr (DefaultControl_update_buttons p s)"

fun pad_draw :: "GameModes \<Rightarrow> int \<Rightarrow> int \<Rightarrow> vjoy \<Rightarrow> error + DrawCmd list" where
  "pad_draw GM_PAUSED W H s =
     (if \<not> ppads s then Inl NullPointer else Inr (DefaultControl_draw W H s))"
| "pad_draw GM_OPTIONS W H s =
     (if \<not> ppads s then Inl NullPointer else Inr (DefaultControl_draw W H s))"
| "pad_draw gm W H s = Inr (DefaultControl_draw W H s)"

section \<open>Mode dispatcher and context stack\<close>

definition dispatch :: "Point \<Rightarrow> vjoy \<Rightarrow> error + vjoy" where
  "dispatch p s = update_buttons (gamemode s) p s"

definition ModeAware_draw :: "int \<Rightarrow> int \<Rightarrow> vjoy \<Rightarrow> error + DrawCmd list" where
  "ModeAware_draw W H s =
     (if \<not> disable_draw s (gamemode s) then pad_draw (gamemode s) W H s else Inr [])"

definition wasTap_rect :: "Rect \<Rightarrow> vjoy \<Rightarrow> bool" where
  "wasTap_rect rect s =
     (if ETOUCH = getMode s then False else GestureObserver_wasTap_rect rect s)"

definition wasTap :: "vjoy \<Rightarrow> bool" where
  "wasTap s = (if ETOUCH = getMode s then False else GestureObserver_wasTap s)"

definition gameModeChanged :: "GameModes \<Rightarrow> vjoy \<Rightarrow> error + vjoy" where
  "gameModeChanged newMode s =
     (case on_enter newMode (s\<lparr>ppads := True\<rparr>) of
        Inl e \<Rightarrow> Inl e
      | Inr s1 \<Rightarrow> Inr (ignoreAllCurrentFingers s1))"

definition state_push :: "vjoy \<Rightarrow> state_t" where
  "state_push s =
     \<lparr>st_mode = getMode s,
      st_gm = gamemode s,
      st_gm_draw = disable_draw s (gamemode s),
      st_normal_textbox_mode = textbox_mode s\<rparr>"

definition state_pop :: "state_t \<Rightarrow> vjoy \<Rightarrow> vjoy" where
  "state_pop f s =
     (let s1 = setMode (st_mode f) s;
          s2 = s1\<lparr>disable_draw := (disable_draw s1)(st_gm f := st_gm_draw f)\<rparr>
      in s2\<lparr>textbox_mode := st_normal_textbox_mode f\<rparr>)"

text \<open>The \<^verbatim>\<open>switch\<close> of \<^verbatim>\<open>specScreenChanged\<close>, reached only when entering.\<close>

fun screen_switch :: "SpecScreens \<Rightarrow> vjoy \<Rightarrow> error + vjoy" where
  "screen_switch ETextBox s =
     (case getModeFromSettings Tap_EIngameDialog s of
        Inl e \<Rightarrow> Inl e
      | Inr m \<Rightarrow> (let s1 = setMode m s in Inr (s1\<lparr>textbox_mode := (getMode s1 \<noteq> ETOUCH)\<rparr>)))"
| "screen_switch ESaveLoad s =
     (case getModeFromSettings Tap_ESaveLoad s of
        Inl e \<Rightarrow> Inl e
      | Inr m \<Rightarrow> (let s1 = setMode m s in Inr (s1\<lparr>textbox_mode := False\<rparr>)))"
| "screen_switch EYesNo s =
     (case getModeFromSettings Tap_EIngameDialog s of
        Inl e \<Rightarrow> Inl e
      | Inr m \<Rightarrow> (let s1 = setMode m s in Inr (s1\<lparr>textbox_mode := False\<rparr>)))"
| "screen_switch EStageSelect1 s =
     (case getModeFromSettings Tap_EIngameDialog s of
        Inl e \<Rightarrow> Inl e
      | Inr m \<Rightarrow> (let s1 = setMode m s in Inr (s1\<lparr>textbox_mode := False\<rparr>)))"
| "screen_switch EStageSelect2 s =
     (case getModeFromSettings Tap_EIngameDialog s of
        Inl e \<Rightarrow> Inl e
      | Inr m \<Rightarrow> (let s1 = setMode m s in Inr (s1\<lparr>textbox_mode := (getMode s1 \<noteq> ETOUCH)\<rparr>)))"

definition specScreenChanged :: "SpecScreens \<Rightarrow> bool \<Rightarrow> vjoy \<Rightarrow> error + vjoy" where
  "specScreenChanged newScreen enter s =
     (let s0 = ignoreAllCurrentFingers s in
      if enter then screen_switch newScreen (s0\<lparr>states := state_push s0 # states s0\<rparr>)
      else
        (case states s0 of
           [] \<Rightarrow> Inr s0
         | frame # rest \<Rightarrow> Inr ((state_pop frame s0)\<lparr>states := rest\<rparr>)))"

section \<open>The per-frame pipeline\<close>

definition Init :: "vjoy \<Rightarrow> vjoy" where
  "Init s = registerGetureObserver (s\<lparr>vjoy_enabled := True\<rparr>)"

definition Destroy :: "vjoy \<Rightarrow> vjoy" where
  "Destroy s = s\<lparr>vjoy_enabled := False\<rparr>"

fun marker_loop :: "int \<Rightarrow> int \<Rightarrow> (SDL_FingerID \<times> Point) list \<Rightarrow> DrawCmd list" where
  "marker_loop W H [] = []"
| "marker_loop W H (e # es) =
     draw_fill_rect W H (Rect_centred (snd e) 0.04 0.04) (NXColor 0xff 0xcf 0x33)
     @ marker_loop W H es"

definition DrawAll :: "int \<Rightarrow> int \<Rightarrow> vjoy \<Rightarrow> error + DrawCmd list" where
  "DrawAll W H s =
     (if \<not> (vjoy_enabled s \<and> vjoy_visible s) then Inr []
      else
        (case ModeAware_draw W H s of
           Inl e \<Rightarrow> Inl e
         | Inr cmds \<Rightarrow> Inr (cmds @ marker_loop W H (lastFingerPos s))))"

definition PreProcessInput :: "vjoy \<Rightarrow> vjoy" where
  "PreProcessInput s = (if \<not> vjoy_enabled s then s else flushEvents s)"

text \<open>The loop of \<^verbatim>\<open>ProcessInput\<close> over the registry, in iterator order.\<close>

fun dispatch_loop :: "(SDL_FingerID \<times> Point) list \<Rightarrow> vjoy \<Rightarrow> error + vjoy" where
  "dispatch_loop [] s = Inr s"
| "dispatch_loop (e # es) s =
     (case dispatch (snd e) s of Inl err \<Rightarrow> Inl err | Inr s1 \<Rightarrow> dispatch_loop es s1)"

definition ProcessInput :: "vjoy \<Rightarrow> error + vjoy" where
  "ProcessInput s =
     (if \<not> vjoy_enabled s then Inr s
      else
        dispatch_loop (lastFingerPos s)
          (s\<lparr>inputs := replicate INPUT_COUNT False,
            pressed := replicate seg_count False\<rparr>))"

section \<open>Sequences of calls\<close>

text \<open>
  The entry points that the rest of the game calls, together with the two changes of
  the collaborators that the file reads (the game switching its mode, the settings
  table being rewritten). A run stops at the first failure.
\<close>

datatype op =
    OpInit
  | OpDestroy
  | OpInject SDL_Event
  | OpPreProcess
  | OpProcess
  | OpGameModeChanged GameModes
  | OpSpecScreenChanged SpecScreens bool
  | OpTap real real
  | OpGameSetsMode GameModes
  | OpSettingsChanged "Place \<Rightarrow> TapStyle"

fun step :: "op \<Rightarrow> vjoy \<Rightarrow> error + vjoy" where
  "step OpInit s = Inr (Init s)"
| "step OpDestroy s = Inr (Destroy s)"
| "step (OpInject evt) s = Inr (InjectInputEvent evt s)"
| "step OpPreProcess s = Inr (PreProcessInput s)"
| "step OpProcess s = ProcessInput s"
| "step (OpGameModeChanged gm) s = gameModeChanged gm s"
| "step (OpSpecScreenChanged scr enter) s = specScreenChanged scr enter s"
| "step (OpTap x y) s = Inr (tap x y s)"
| "step (OpGameSetsMode gm) s = Inr (s\<lparr>gamemode := gm\<rparr>)"
| "step (OpSettingsChanged tp) s = Inr (s\<lparr>settings_tap := tp\<rparr>)"

fun run :: "op list \<Rightarrow> vjoy \<Rightarrow> error + vjoy" where
  "run [] s = Inr s"
| "run (x # xs) s = (case step x s of Inl e \<Rightarrow> Inl e | Inr s1 \<Rightarrow> run xs s1)"

text \<open>A finger-up event for the finger \<open>fid\<close>.\<close>

fun is_finger_up :: "SDL_FingerID \<Rightarrow> op \<Rightarrow> bool" where
  "is_finger_up fid (OpInject evt) = (evt_type evt = SDL_FINGERUP \<and> evt_fingerId evt = fid)"
| "is_finger_up fid x = False"

section \<open>Example states\<close>

text \<open>
  The globals as the file initialises them, for a given answer of the collaborators
  (current game mode, settings table, touch devices). Arrays of static storage start
  zeroed; the mode starts as \<^verbatim>\<open>ETOUCH\<close>.
\<close>

definition initial_vjoy :: "GameModes \<Rightarrow> (Place \<Rightarrow> TapStyle)
    \<Rightarrow> (SDL_TouchID \<Rightarrow> (real \<times> real) option) \<Rightarrow> vjoy" where
  "initial_vjoy gm tp touch =
     \<lparr>lastFingerPos = [], ignoredFingers = {}, vjoy_mode = ETOUCH, vjoy_enabled = True,
      vjoy_visible = True, xres = -1, yres = -1,
      inputs = replicate INPUT_COUNT False, pressed = replicate seg_count False,
      ppads = False, disable_draw = (\<lambda>gm. False), textbox_mode = False, states = [],
      taps = [], sGO = False, gesture_recognizer = False, gamemode = gm,
      settings_tap = tp, SDL_GetTouch = touch\<rparr>"

definition finger_event :: "SDL_EventType \<Rightarrow> SDL_FingerID \<Rightarrow> int \<Rightarrow> int \<Rightarrow> SDL_Event" where
  "finger_event ty fid x y =
     \<lparr>evt_type = ty, evt_touchId = 0, evt_fingerId = fid, evt_x = x, evt_y = y\<rparr>"

text \<open>Gesture-only mode, resolution unknown, fingers 3 and 7 tracked, 7 and 9 ignored.\<close>

definition up_example_state :: vjoy where
  "up_example_state =
     (initial_vjoy GM_TITLE (\<lambda>pl. Tap_ETAP) (\<lambda>t. None))
       \<lparr>lastFingerPos := [(3, mkPoint 0.1 0.1), (7, mkPoint 0.5 0.5)],
        ignoredFingers := {7, 9}, vjoy_mode := EGESTURE\<rparr>"

definition up_example_event :: SDL_Event where
  "up_example_event = finger_event SDL_FINGERUP 7 0 0"

text \<open>Touch-only mode with two fingers tracked and two flags left from the last tick.\<close>

definition two_fingers_state :: vjoy where
  "two_fingers_state =
     (initial_vjoy GM_TITLE (\<lambda>pl. Tap_ETAP) (\<lambda>t. None))
       \<lparr>lastFingerPos := [(1, mkPoint 0.05 0.85), (2, mkPoint 0.2 0.9)],
        inputs := (replicate INPUT_COUNT False)[4 := True, 5 := True]\<rparr>"

definition island_example :: vjoy where
  "island_example = initial_vjoy GM_ISLAND (\<lambda>pl. Tap_EBOTH) (\<lambda>t. None)"

text \<open>Normal gameplay, empty context stack, finger 3 held on the jump key.\<close>

definition held_finger_state :: vjoy where
  "held_finger_state =
     (initial_vjoy GM_NORMAL (\<lambda>pl. Tap_EBOTH) (\<lambda>t. None))
       \<lparr>lastFingerPos := [(3, mkPoint 0.05 0.85)]\<rparr>"

definition ignore_example_state :: vjoy where
  "ignore_example_state =
     (initial_vjoy GM_NORMAL (\<lambda>pl. Tap_EBOTH) (\<lambda>t. Some (100, 100)))
       \<lparr>lastFingerPos := [(3, mkPoint 0.05 0.85)], xres := 100, yres := 100\<rparr>"

definition ignore_example_ops :: "op list" where
  "ignore_example_ops =
     [OpInject (finger_event SDL_FINGERMOTION 3 5 85),
      OpProcess,
      OpInject (finger_event SDL_FINGERDOWN 3 6 85),
      OpInject (finger_event SDL_FINGERUP 4 0 0),
      OpPreProcess]"

text \<open>Inventory open, drawing of its pad suppressed, every context set to taps.\<close>

definition dialog_example_state :: vjoy where
  "dialog_example_state =
     (initial_vjoy GM_INVENTORY (\<lambda>pl. Tap_ETAP) (\<lambda>t. None))
       \<lparr>textbox_mode := False, disable_draw := (\<lambda>gm. gm = GM_INVENTORY)\<rparr>"

text \<open>Paused over a dialog: \<^verbatim>\<open>ppads\<close> set, text-box mode active, touch and taps both live.\<close>

definition paused_example_state :: vjoy where
  "paused_example_state =
     (initial_vjoy GM_PAUSED (\<lambda>pl. Tap_EBOTH) (\<lambda>t. None))
       \<lparr>ppads := True, textbox_mode := True, vjoy_mode := EBOTH\<rparr>"

text \<open>Two touch points on the horizontal axis of the wheel, 0.07 left and right of the anchor.\<close>

definition left_point :: Point where
  "left_point = mkPoint 0.75 0.82"

definition right_point :: Point where
  "right_point = mkPoint 0.89 0.82"


text \<open>
  The points that pass the radius test at the head of \<^verbatim>\<open>Pad::update_buttons\<close>, which
  returns at once for every other point.
\<close>

definition in_wheel :: "Point \<Rightarrow> bool" where
  "in_wheel p =
     (let vec = Point_sub p seg_center;
          r2 = px vec * px vec + py vec * py vec
      in \<not> r2 > seg_size * seg_size)"


text \<open>Title screen, touch-only mode, finger 1 on the left of the wheel and finger 2 on its right.\<close>

definition wheel_state :: vjoy where
  "wheel_state =
     (initial_vjoy GM_TITLE (\<lambda>pl. Tap_EPAD) (\<lambda>t. None))
       \<lparr>lastFingerPos := [(1, left_point), (2, right_point)]\<rparr>"

section \<open>Frame lemmas\<close>

lemma map_assign_keys: "fst ` set (map_assign k v xs) = insert k (fst ` set xs)"
  by (induction k v xs rule: map_assign.induct) auto

lemma fold_insert_keys:
  "fold (\<lambda>e ig. insert (fst e) ig) xs A = A \<union> fst ` set xs"
  by (induction xs arbitrary: A) auto

lemma ignoreAllCurrentFingers_eq:
  "ignoreAllCurrentFingers s =
     s\<lparr>ignoredFingers := ignoredFingers s \<union> tracked s, lastFingerPos := []\<rparr>"
  by (simp add: ignoreAllCurrentFingers_def fold_insert_keys tracked_def)

lemma setMode_eq:
  "setMode n s =
     (if n = vjoy_mode s then s
      else s\<lparr>vjoy_mode := n, gesture_recognizer := (n \<noteq> ETOUCH),
             lastFingerPos := (if n = EGESTURE then [] else lastFingerPos s)\<rparr>)"
  by (simp add: setMode_def CONFIG_USE_TAPS_def toggleGestureRecognizer_def Let_def)

lemma vjoy_mode_setMode [simp]: "vjoy_mode (setMode n s) = n"
  by (simp add: setMode_eq)

lemma setMode_ignored [simp]: "ignoredFingers (setMode n s) = ignoredFingers s"
  by (simp add: setMode_eq)

lemma setMode_tracked: "tracked (setMode n s) \<subseteq> tracked s"
  by (simp add: setMode_eq tracked_def)

lemma Pad_update_buttons_frame:
  "lastFingerPos (Pad_update_buttons p s) = lastFingerPos s
   \<and> ignoredFingers (Pad_update_buttons p s) = ignoredFingers s
   \<and> gamemode (Pad_update_buttons p s) = gamemode s
   \<and> ppads (Pad_update_buttons p s) = ppads s
   \<and> textbox_mode (Pad_update_buttons p s) = textbox_mode s"
  by (simp add: Pad_update_buttons_def Let_def)

lemma NormalModePad_update_buttons_frame:
  "lastFingerPos (NormalModePad_update_buttons p s) = lastFingerPos s
   \<and> ignoredFingers (NormalModePad_update_buttons p s) = ignoredFingers s"
  by (simp add: NormalModePad_update_buttons_def DefaultControl_update_buttons_def
        VKeys_update_buttons_def Pad_update_buttons_frame)

lemma update_buttons_frame:
  "update_buttons gm p s = Inr s' \<Longrightarrow>
     lastFingerPos s' = lastFingerPos s \<and> ignoredFingers s' = ignoredFingers s"
  by (cases gm)
     (auto simp: NormalModePad_update_buttons_frame DefaultControl_update_buttons_def
        VKeys_update_buttons_def Pad_update_buttons_frame split: if_splits)

lemma dispatch_loop_frame:
  "dispatch_loop es s = Inr s' \<Longrightarrow>
     lastFingerPos s' = lastFingerPos s \<and> ignoredFingers s' = ignoredFingers s"
proof (induction es arbitrary: s)
  case Nil
  then show ?case by simp
next
  case (Cons e es)
  then obtain s1 where d: "dispatch (snd e) s = Inr s1" and r: "dispatch_loop es s1 = Inr s'"
    by (auto split: sum.splits)
  from d have "lastFingerPos s1 = lastFingerPos s \<and> ignoredFingers s1 = ignoredFingers s"
    unfolding dispatch_def by (rule update_buttons_frame)
  with Cons.IH [OF r] show ?case by simp
qed

lemma ProcessInput_frame:
  "ProcessInput s = Inr s' \<Longrightarrow>
     lastFingerPos s' = lastFingerPos s \<and> ignoredFingers s' = ignoredFingers s"
  by (auto simp: ProcessInput_def dest: dispatch_loop_frame split: if_splits)

lemma on_enter_frame:
  "on_enter gm s = Inr s' \<Longrightarrow> ignoredFingers s' = ignoredFingers s \<and> tracked s' \<subseteq> tracked s"
  using setMode_tracked by (cases gm) (auto split: sum.splits)

lemma screen_switch_frame:
  "screen_switch scr s = Inr s' \<Longrightarrow>
     ignoredFingers s' = ignoredFingers s \<and> tracked s' \<subseteq> tracked s"
  by (cases scr) (auto simp: Let_def tracked_def setMode_eq split: sum.splits if_splits)

lemma gameModeChanged_frame:
  "gameModeChanged gm s = Inr s' \<Longrightarrow> ignoredFingers s \<subseteq> ignoredFingers s' \<and> tracked s' = {}"
  by (auto simp: gameModeChanged_def ignoreAllCurrentFingers_eq tracked_def
        dest!: on_enter_frame split: sum.splits)

lemma specScreenChanged_frame:
  "specScreenChanged scr enter s = Inr s' \<Longrightarrow>
     ignoredFingers s \<subseteq> ignoredFingers s' \<and> tracked s' = {}"
  by (auto simp: specScreenChanged_def ignoreAllCurrentFingers_eq tracked_def Let_def
        state_pop_def setMode_eq
        dest!: screen_switch_frame split: sum.splits if_splits list.splits)

lemma Inject_other_frame:
  assumes "\<not> (evt_type evt = SDL_FINGERUP \<and> evt_fingerId evt = fid)" and "fid \<in> ignoredFingers s"
  shows "fid \<in> ignoredFingers (InjectInputEvent evt s)
       \<and> (fid \<notin> tracked s \<longrightarrow> fid \<notin> tracked (InjectInputEvent evt s))"
  using assms
  by (auto simp: InjectInputEvent_def tracked_def map_erase_def map_assign_keys Let_def
        split: option.splits)

lemma step_keeps_ignored:
  assumes "fid \<in> ignoredFingers s" and "\<not> is_finger_up fid x" and "step x s = Inr s'"
  shows "fid \<in> ignoredFingers s' \<and> (fid \<notin> tracked s \<longrightarrow> fid \<notin> tracked s')"
proof (cases x)
  case (OpInject evt)
  with assms Inject_other_frame [of evt fid s] show ?thesis by auto
next
  case OpProcess
  with assms ProcessInput_frame [of s s'] show ?thesis by (auto simp: tracked_def)
next
  case (OpGameModeChanged gm)
  with assms gameModeChanged_frame [of gm s s'] show ?thesis by auto
next
  case (OpSpecScreenChanged scr enter)
  with assms specScreenChanged_frame [of scr enter s s'] show ?thesis by auto
qed (use assms in \<open>auto simp: Init_def Destroy_def PreProcessInput_def flushEvents_def
      registerGetureObserver_def tap_def GestureObserver_tap_def tracked_def split: if_splits\<close>)

lemma run_keeps_ignored:
  assumes "fid \<in> ignoredFingers s" and "fid \<notin> tracked s"
    and "\<forall>x \<in> set xs. \<not> is_finger_up fid x" and "run xs s = Inr s'"
  shows "fid \<in> ignoredFingers s' \<and> fid \<notin> tracked s'"
  using assms
proof (induction xs arbitrary: s)
  case Nil
  then show ?case by simp
next
  case (Cons x xs)
  then obtain s1 where st: "step x s = Inr s1" and r: "run xs s1 = Inr s'"
    by (auto split: sum.splits)
  from Cons.prems st have "fid \<in> ignoredFingers s1 \<and> fid \<notin> tracked s1"
    using step_keeps_ignored [of fid s x s1] by simp
  with Cons.IH [of s1] Cons.prems r show ?case by simp
qed

section \<open>Finger tracker\<close>

text \<open>
  C10. A finger-up event injected while the system is enabled removes the event's
  finger identifier from the finger registry and from the ignore set, whatever the
  touch mode is (gesture-only included) and whether or not the device resolution is
  known (\<open>xres\<close> negative or not): the result is the state with exactly that
  identifier erased from both containers, every other global as it was.
\<close>

theorem C10_finger_up_removes:
  assumes "vjoy_enabled s" and "evt_type evt = SDL_FINGERUP"
  shows "evt_fingerId evt \<notin> tracked (InjectInputEvent evt s)
       \<and> evt_fingerId evt \<notin> ignoredFingers (InjectInputEvent evt s)
       \<and> InjectInputEvent evt s =
           s\<lparr>lastFingerPos := filter (\<lambda>e. fst e \<noteq> evt_fingerId evt) (lastFingerPos s),
             ignoredFingers := ignoredFingers s - {evt_fingerId evt}\<rparr>"
  using assms by (auto simp add: InjectInputEvent_def tracked_def map_erase_def)

theorem C10_finger_up_removes_witness:
  "vjoy_enabled up_example_state \<and> evt_type up_example_event = SDL_FINGERUP
   \<and> vjoy_mode up_example_state = EGESTURE \<and> xres up_example_state < 0
   \<and> lastFingerPos (InjectInputEvent up_example_event up_example_state) = [(3, mkPoint 0.1 0.1)]
   \<and> ignoredFingers (InjectInputEvent up_example_event up_example_state) = {9}"
  using C10_finger_up_removes [of up_example_state up_example_event]
  by (simp add: up_example_state_def up_example_event_def finger_event_def initial_vjoy_def)

text \<open>
  C8. While a finger identifier is in the ignore set, a move or down sample injected
  for it leaves the registry as it is; an entry point that takes the identifier out of
  the ignore set is a finger-up event for that identifier, injected while the system is
  enabled; hence after \<^verbatim>\<open>ignoreAllCurrentFingers\<close> an identifier that was tracked
  at the call is ignored and untracked after every run of entry points that contains no
  finger-up event for it.
\<close>

theorem C8_ignored_stays_out:
  "(fid \<in> ignoredFingers s \<and> evt_type evt \<noteq> SDL_FINGERUP \<and> evt_fingerId evt = fid
      \<longrightarrow> lastFingerPos (InjectInputEvent evt s) = lastFingerPos s)
 \<and> (fid \<in> ignoredFingers s \<and> step x s = Inr s1 \<and> fid \<notin> ignoredFingers s1
      \<longrightarrow> is_finger_up fid x \<and> vjoy_enabled s)
 \<and> (fid \<in> tracked s \<and> (\<forall>y \<in> set xs. \<not> is_finger_up fid y)
      \<and> run xs (ignoreAllCurrentFingers s) = Inr s2
      \<longrightarrow> fid \<in> ignoredFingers s2 \<and> fid \<notin> tracked s2)"
proof (intro conjI impI)
  assume "fid \<in> ignoredFingers s \<and> evt_type evt \<noteq> SDL_FINGERUP \<and> evt_fingerId evt = fid"
  then show "lastFingerPos (InjectInputEvent evt s) = lastFingerPos s"
    by (auto simp: InjectInputEvent_def split: option.splits)
next
  assume a: "fid \<in> ignoredFingers s \<and> step x s = Inr s1 \<and> fid \<notin> ignoredFingers s1"
  then show "is_finger_up fid x" using step_keeps_ignored [of fid s x s1] by blast
  from a have up: "is_finger_up fid x" using step_keeps_ignored [of fid s x s1] by blast
  then obtain e where "x = OpInject e" by (cases x) auto
  with a show "vjoy_enabled s" by (auto simp: InjectInputEvent_def split: if_splits)
next
  assume a: "fid \<in> tracked s \<and> (\<forall>y \<in> set xs. \<not> is_finger_up fid y)
      \<and> run xs (ignoreAllCurrentFingers s) = Inr s2"
  have "fid \<in> ignoredFingers (ignoreAllCurrentFingers s)"
    and "fid \<notin> tracked (ignoreAllCurrentFingers s)"
    using a by (simp_all add: ignoreAllCurrentFingers_eq tracked_def)
  with a show "fid \<in> ignoredFingers s2" "fid \<notin> tracked s2"
    using run_keeps_ignored [of fid "ignoreAllCurrentFingers s" xs s2] by blast+
qed

theorem C8_ignored_stays_out_witness:
  "3 \<in> tracked ignore_example_state
   \<and> list_all (\<lambda>y. \<not> is_finger_up 3 y) ignore_example_ops
   \<and> (case run ignore_example_ops (ignoreAllCurrentFingers ignore_example_state) of
         Inl e \<Rightarrow> False
       | Inr s2 \<Rightarrow> 3 \<in> ignoredFingers s2 \<and> 3 \<notin> tracked s2)
   \<and> lastFingerPos (InjectInputEvent (finger_event SDL_FINGERDOWN 3 6 85)
         (ignoreAllCurrentFingers ignore_example_state)) = []
   \<and> is_finger_up 3 (OpInject (finger_event SDL_FINGERUP 3 0 0))
   \<and> 3 \<notin> ignoredFingers (InjectInputEvent (finger_event SDL_FINGERUP 3 0 0)
         (ignoreAllCurrentFingers ignore_example_state))"
proof -
  let ?s0 = "ignoreAllCurrentFingers ignore_example_state"
  have t: "3 \<in> tracked ignore_example_state"
    by (simp add: ignore_example_state_def tracked_def)
  have n: "\<forall>y \<in> set ignore_example_ops. \<not> is_finger_up 3 y"
    by (simp add: ignore_example_ops_def finger_event_def)
  have r: "run ignore_example_ops ?s0 =
      Inr (?s0\<lparr>inputs := replicate INPUT_COUNT False, pressed := replicate seg_count False\<rparr>)"
    by (simp add: ignore_example_ops_def finger_event_def ignore_example_state_def
          initial_vjoy_def ignoreAllCurrentFingers_eq tracked_def InjectInputEvent_def
          ProcessInput_def PreProcessInput_def flushEvents_def map_erase_def)
  have i: "3 \<in> ignoredFingers ?s0"
    by (simp add: ignore_example_state_def ignoreAllCurrentFingers_eq tracked_def)
  have u: "step (OpInject (finger_event SDL_FINGERUP 3 0 0)) ?s0
      = Inr (InjectInputEvent (finger_event SDL_FINGERUP 3 0 0) ?s0)"
    by simp
  have o: "3 \<notin> ignoredFingers (InjectInputEvent (finger_event SDL_FINGERUP 3 0 0) ?s0)"
    by (simp add: ignore_example_state_def initial_vjoy_def ignoreAllCurrentFingers_eq
          tracked_def InjectInputEvent_def finger_event_def)
  have d: "evt_type (finger_event SDL_FINGERDOWN 3 6 85) \<noteq> SDL_FINGERUP
      \<and> evt_fingerId (finger_event SDL_FINGERDOWN 3 6 85) = 3"
    by (simp add: finger_event_def)
  have e: "lastFingerPos ?s0 = []"
    by (simp add: ignoreAllCurrentFingers_eq)
  from C8_ignored_stays_out [of 3 ignore_example_state "finger_event SDL_FINGERDOWN 3 6 85"
      "OpProcess" ignore_example_state ignore_example_ops
      "?s0\<lparr>inputs := replicate INPUT_COUNT False, pressed := replicate seg_count False\<rparr>"]
    t n r
  have c3: "3 \<in> ignoredFingers (?s0\<lparr>inputs := replicate INPUT_COUNT False,
                 pressed := replicate seg_count False\<rparr>)
          \<and> 3 \<notin> tracked (?s0\<lparr>inputs := replicate INPUT_COUNT False,
                 pressed := replicate seg_count False\<rparr>)"
    by blast
  from C8_ignored_stays_out [of 3 ?s0 "finger_event SDL_FINGERDOWN 3 6 85"
      "OpInject (finger_event SDL_FINGERUP 3 0 0)"
      "InjectInputEvent (finger_event SDL_FINGERUP 3 0 0) ?s0" "[]" ?s0] i u o d e
  have c12: "lastFingerPos (InjectInputEvent (finger_event SDL_FINGERDOWN 3 6 85) ?s0) = []
          \<and> is_finger_up 3 (OpInject (finger_event SDL_FINGERUP 3 0 0))"
    by simp
  from t n r c3 c12 o show ?thesis by (simp add: list_all_iff)
qed

section \<open>Touch-mode controller\<close>

text \<open>
  C6. When the settings table holds \<^verbatim>\<open>ETAP\<close>, \<^verbatim>\<open>EPAD\<close> or \<^verbatim>\<open>EBOTH\<close> for the context
  key, the lookup returns gesture-only, touch-only or both; when it holds any other
  value, the lookup ends in the failed assertion and returns no mode. (The
  \<^verbatim>\<open>return EBOTH\<close> behind \<^verbatim>\<open>assert(false)\<close> is never reached while assertions are
  compiled in, which is how the assertion is read here.)
\<close>

theorem C6_getModeFromSettings:
  "getModeFromSettings place (s\<lparr>settings_tap := (settings_tap s)(place := Tap_ETAP)\<rparr>)
     = Inr EGESTURE
 \<and> getModeFromSettings place (s\<lparr>settings_tap := (settings_tap s)(place := Tap_EPAD)\<rparr>)
     = Inr ETOUCH
 \<and> getModeFromSettings place (s\<lparr>settings_tap := (settings_tap s)(place := Tap_EBOTH)\<rparr>)
     = Inr EBOTH
 \<and> getModeFromSettings place (s\<lparr>settings_tap := (settings_tap s)(place := Tap_unrecognized v)\<rparr>)
     = Inl AssertionFailed"
  by (simp add: getModeFromSettings_def)

text \<open>
  C7. \<^verbatim>\<open>setMode(n)\<close> changes nothing when \<open>n\<close> is the current mode. Otherwise the
  current mode becomes \<open>n\<close>, the gesture recognizer is enabled exactly when \<open>n\<close> is not
  touch-only, and the finger registry is emptied exactly when \<open>n\<close> is gesture-only. After
  a change to gesture-only the registry is empty, so the next \<^verbatim>\<open>ProcessInput\<close> of the
  enabled system dispatches no finger and leaves every flag false.
\<close>

theorem C7_setMode:
  "setMode n s =
     (if n = vjoy_mode s then s
      else s\<lparr>vjoy_mode := n, gesture_recognizer := (n \<noteq> ETOUCH),
             lastFingerPos := (if n = EGESTURE then [] else lastFingerPos s)\<rparr>)
   \<and> (vjoy_mode s \<noteq> EGESTURE \<and> vjoy_enabled s \<longrightarrow>
        lastFingerPos (setMode EGESTURE s) = []
        \<and> ProcessInput (setMode EGESTURE s) =
            Inr ((setMode EGESTURE s)\<lparr>inputs := replicate INPUT_COUNT False,
                                       pressed := replicate seg_count False\<rparr>))"
  by (simp add: setMode_eq ProcessInput_def)

theorem C7_setMode_witness:
  "vjoy_mode two_fingers_state \<noteq> EGESTURE \<and> vjoy_enabled two_fingers_state
   \<and> lastFingerPos two_fingers_state \<noteq> []
   \<and> lastFingerPos (setMode EGESTURE two_fingers_state) = []
   \<and> gesture_recognizer (setMode EGESTURE two_fingers_state)
   \<and> (case ProcessInput (setMode EGESTURE two_fingers_state) of
         Inl e \<Rightarrow> False
       | Inr s' \<Rightarrow> inputs s' = replicate INPUT_COUNT False \<and> lastFingerPos s' = [])"
  using C7_setMode [of EGESTURE two_fingers_state]
  by (simp add: setMode_eq two_fingers_state_def initial_vjoy_def)

section \<open>Entering a mode and forwarding to the normal pad\<close>

text \<open>
  C4, as the claim states it, fails: \<^verbatim>\<open>IslandModePad\<close> and \<^verbatim>\<open>CreditsModePad\<close> inherit the
  empty \<^verbatim>\<open>DefaultControl::on_enter\<close>, so entering the island or the credits mode in
  touch-only mode leaves the mode touch-only; it does not become "both".
\<close>

theorem C4_on_enter_island_counterexample:
  "on_enter GM_ISLAND island_example = Inr island_example
   \<and> on_enter GM_CREDITS island_example = Inr island_example
   \<and> vjoy_mode island_example = ETOUCH \<and> vjoy_mode island_example \<noteq> EBOTH"
  by (simp add: island_example_def initial_vjoy_def)

text \<open>
  C4, amended. For the island and the credits mode \<^verbatim>\<open>on_enter()\<close> leaves the touch mode
  as it is. For each mode with a context key of its own (inventory, map system, intro,
  title, paused, options) the mode after \<^verbatim>\<open>on_enter()\<close> is the result of the lookup
  for that key, and \<^verbatim>\<open>on_enter()\<close> fails exactly when the lookup does.
\<close>

theorem C4_on_enter_mode:
  "map_sum id vjoy_mode (on_enter GM_ISLAND s) = Inr (vjoy_mode s)
 \<and> map_sum id vjoy_mode (on_enter GM_CREDITS s) = Inr (vjoy_mode s)
 \<and> map_sum id vjoy_mode (on_enter GM_INVENTORY s) = getModeFromSettings Tap_EInventory s
 \<and> map_sum id vjoy_mode (on_enter GM_MAP_SYSTEM s) = getModeFromSettings Tap_EMapSystem s
 \<and> map_sum id vjoy_mode (on_enter GM_INTRO s) = getModeFromSettings Tap_EMovies s
 \<and> map_sum id vjoy_mode (on_enter GM_TITLE s) = getModeFromSettings Tap_ETitle s
 \<and> map_sum id vjoy_mode (on_enter GM_PAUSED s) = getModeFromSettings Tap_EPause s
 \<and> map_sum id vjoy_mode (on_enter GM_OPTIONS s) = getModeFromSettings Tap_EOptions s"
  by (simp split: sum.split)

text \<open>
  C9. Once \<^verbatim>\<open>ppads\<close> points to the pad table (it does from the first
  \<^verbatim>\<open>gameModeChanged\<close> on), the paused pad and the options pad give, for every point
  and every state, the result of the normal-gameplay pad, for \<^verbatim>\<open>update_buttons\<close> and
  for \<^verbatim>\<open>draw\<close> alike; with text-box mode active they set the fire input and nothing
  else.
\<close>

theorem C9_paused_options_proxy:
  assumes "ppads s"
  shows "update_buttons GM_PAUSED p s = update_buttons GM_NORMAL p s
       \<and> update_buttons GM_OPTIONS p s = update_buttons GM_NORMAL p s
       \<and> pad_draw GM_PAUSED W H s = pad_draw GM_NORMAL W H s
       \<and> pad_draw GM_OPTIONS W H s = pad_draw GM_NORMAL W H s
       \<and> (textbox_mode s \<longrightarrow>
            update_buttons GM_PAUSED p s = Inr (s\<lparr>inputs := (inputs s)[FIREKEY := True]\<rparr>)
          \<and> update_buttons GM_OPTIONS p s = Inr (s\<lparr>inputs := (inputs s)[FIREKEY := True]\<rparr>))"
  using assms by (simp add: NormalModePad_update_buttons_def)

theorem C9_paused_options_proxy_witness:
  "ppads paused_example_state \<and> textbox_mode paused_example_state
   \<and> update_buttons GM_NORMAL (mkPoint 0.05 0.85) paused_example_state
       = Inr (paused_example_state\<lparr>inputs := (replicate INPUT_COUNT False)[FIREKEY := True]\<rparr>)
   \<and> update_buttons GM_PAUSED (mkPoint 0.05 0.85) paused_example_state
       = Inr (paused_example_state\<lparr>inputs := (replicate INPUT_COUNT False)[FIREKEY := True]\<rparr>)
   \<and> update_buttons GM_OPTIONS (mkPoint 0.05 0.85) paused_example_state
       = Inr (paused_example_state\<lparr>inputs := (replicate INPUT_COUNT False)[FIREKEY := True]\<rparr>)
   \<and> pad_draw GM_PAUSED 320 240 paused_example_state
       = pad_draw GM_NORMAL 320 240 paused_example_state
   \<and> pad_draw GM_OPTIONS 320 240 paused_example_state
       = pad_draw GM_NORMAL 320 240 paused_example_state"
  using C9_paused_options_proxy [of paused_example_state "mkPoint 0.05 0.85" 320 240]
  by (simp add: paused_example_state_def initial_vjoy_def)

section \<open>Context stack\<close>

text \<open>
  C5, as the claim states it, fails: \<^verbatim>\<open>specScreenChanged\<close> calls
  \<^verbatim>\<open>ignoreAllCurrentFingers\<close> before it looks at the stack, so leaving with an empty
  stack while finger 3 is held empties the registry and puts 3 into the ignore set.
\<close>

theorem C5_leave_empty_stack_counterexample:
  "states held_finger_state = []
   \<and> specScreenChanged ETextBox False held_finger_state
       = Inr (held_finger_state\<lparr>ignoredFingers := {3}, lastFingerPos := []\<rparr>)
   \<and> specScreenChanged ETextBox False held_finger_state \<noteq> Inr held_finger_state"
  by (simp add: specScreenChanged_def ignoreAllCurrentFingers_eq tracked_def
        held_finger_state_def initial_vjoy_def)

text \<open>
  C5, amended. Leaving while the context stack is empty changes nothing but the finger
  tracker: the tracked fingers move to the ignore set and the registry becomes empty,
  while the touch mode, every pad's draw flag, the text-box flag, the stack and all other
  globals stay as they were; with no finger tracked the call is a no-op.
\<close>

theorem C5_leave_empty_stack:
  assumes "states s = []"
  shows "specScreenChanged scr False s =
           Inr (s\<lparr>ignoredFingers := ignoredFingers s \<union> tracked s, lastFingerPos := []\<rparr>)
       \<and> (tracked s = {} \<longrightarrow> specScreenChanged scr False s = Inr s)"
  using assms
  by (simp add: specScreenChanged_def ignoreAllCurrentFingers_eq tracked_def)

theorem C5_leave_empty_stack_witness:
  "states held_finger_state = []
   \<and> specScreenChanged ESaveLoad False held_finger_state
       = Inr (held_finger_state\<lparr>ignoredFingers := {3}, lastFingerPos := []\<rparr>)
   \<and> tracked (initial_vjoy GM_NORMAL (\<lambda>pl. Tap_EBOTH) (\<lambda>t. None)) = {}
   \<and> specScreenChanged ESaveLoad False (initial_vjoy GM_NORMAL (\<lambda>pl. Tap_EBOTH) (\<lambda>t. None))
       = Inr (initial_vjoy GM_NORMAL (\<lambda>pl. Tap_EBOTH) (\<lambda>t. None))"
  using C5_leave_empty_stack [of held_finger_state ESaveLoad]
        C5_leave_empty_stack [of "initial_vjoy GM_NORMAL (\<lambda>pl. Tap_EBOTH) (\<lambda>t. None)" ESaveLoad]
  by (simp add: held_finger_state_def initial_vjoy_def tracked_def)

text \<open>
  C3. With a settings table that holds only recognized values, entering any modal
  screen returns, and leaving right after it (for whatever screen kind is passed)
  returns a state whose touch mode, draw flags (that of the current game mode among
  them), text-box flag and context stack are those from before the entering call.
\<close>

theorem C3_push_pop_roundtrip:
  assumes "\<And>pl v. settings_tap s pl \<noteq> Tap_unrecognized v"
  shows "\<exists>s1 s2. specScreenChanged scr True s = Inr s1
           \<and> specScreenChanged scr' False s1 = Inr s2
           \<and> vjoy_mode s2 = vjoy_mode s
           \<and> disable_draw s2 = disable_draw s
           \<and> textbox_mode s2 = textbox_mode s
           \<and> states s2 = states s"
proof -
  have ok: "\<exists>m. getModeFromSettings pl s0 = Inr m" if "settings_tap s0 = settings_tap s" for pl s0
    using assms [of pl] that by (cases "settings_tap s pl") (auto simp: getModeFromSettings_def)
  let ?s0 = "ignoreAllCurrentFingers s"
  let ?p = "?s0\<lparr>states := state_push ?s0 # states ?s0\<rparr>"
  have st: "settings_tap ?p = settings_tap s" by (simp add: ignoreAllCurrentFingers_eq)
  obtain m1 where m1: "getModeFromSettings Tap_EIngameDialog ?p = Inr m1" using ok [OF st] by blast
  obtain m2 where m2: "getModeFromSettings Tap_ESaveLoad ?p = Inr m2" using ok [OF st] by blast
  obtain s1 where s1: "screen_switch scr ?p = Inr s1"
    using m1 m2 by (cases scr) (auto simp: Let_def)
  have f: "states s1 = state_push ?s0 # states s \<and> disable_draw s1 = disable_draw s
           \<and> gamemode s1 = gamemode s"
    using s1 m1 m2
    by (cases scr) (auto simp: Let_def setMode_eq ignoreAllCurrentFingers_eq split: if_splits)
  have e: "specScreenChanged scr True s = Inr s1"
    using s1 by (simp add: specScreenChanged_def Let_def)
  let ?s2 = "(state_pop (state_push ?s0) (ignoreAllCurrentFingers s1))\<lparr>states := states s\<rparr>"
  have l: "specScreenChanged scr' False s1 = Inr ?s2"
    using f by (simp add: specScreenChanged_def Let_def ignoreAllCurrentFingers_eq)
  have r: "vjoy_mode ?s2 = vjoy_mode s \<and> disable_draw ?s2 = disable_draw s
         \<and> textbox_mode ?s2 = textbox_mode s \<and> states ?s2 = states s"
    using f
    by (simp add: state_pop_def state_push_def getMode_def Let_def setMode_eq
          ignoreAllCurrentFingers_eq)
  from e l r show ?thesis by blast
qed

theorem C3_push_pop_roundtrip_witness:
  "(case specScreenChanged ETextBox True dialog_example_state of
      Inl e \<Rightarrow> False
    | Inr s1 \<Rightarrow> vjoy_mode s1 = EGESTURE \<and> textbox_mode s1
        \<and> (case specScreenChanged ETextBox False s1 of
             Inl e \<Rightarrow> False
           | Inr s2 \<Rightarrow> vjoy_mode s2 = ETOUCH \<and> \<not> textbox_mode s2
               \<and> disable_draw s2 GM_INVENTORY \<and> states s2 = []))"
proof -
  have h: "\<And>pl v. settings_tap dialog_example_state pl \<noteq> Tap_unrecognized v"
    by (simp add: dialog_example_state_def initial_vjoy_def)
  from C3_push_pop_roundtrip [OF h, of ETextBox ETextBox]
  obtain s1 s2 where "specScreenChanged ETextBox True dialog_example_state = Inr s1"
    and "specScreenChanged ETextBox False s1 = Inr s2"
    and "vjoy_mode s2 = vjoy_mode dialog_example_state"
    and "disable_draw s2 = disable_draw dialog_example_state"
    and "textbox_mode s2 = textbox_mode dialog_example_state"
    and "states s2 = states dialog_example_state"
    by blast
  moreover have "specScreenChanged ETextBox True dialog_example_state = Inr s1
      \<Longrightarrow> vjoy_mode s1 = EGESTURE \<and> textbox_mode s1"
    by (auto simp: specScreenChanged_def Let_def dialog_example_state_def initial_vjoy_def
          getModeFromSettings_def getMode_def ignoreAllCurrentFingers_eq tracked_def setMode_eq)
  ultimately show ?thesis
    by (simp add: dialog_example_state_def initial_vjoy_def)
qed

section \<open>Wheel geometry\<close>

text \<open>
  The corners of the eight sector triangles lie at the odd multiples of \<open>pi / 8\<close>. Their
  cosines and sines are \<open>cos (pi / 8)\<close> and \<open>sin (pi / 8)\<close> up to sign and order, and
  \<open>0 < sin (pi / 8) < cos (pi / 8)\<close> is all the proofs below need of them.
\<close>

subsection \<open>The angles of the corners\<close>

lemma s8_pos: "0 < sin (pi / 8)"
  by (rule sin_gt_zero) (use pi_gt_zero in auto)

lemma trig_shift:
  "cos (pi / 2 - x) = sin x" "sin (pi / 2 - x) = cos x"
  "cos (pi / 2 + x) = - sin x" "sin (pi / 2 + x) = cos x"
  "cos (pi - x) = - cos x" "sin (pi - x) = sin (x::real)"
proof -
  show "cos (pi / 2 - x) = sin x" by (simp add: cos_diff)
  show "sin (pi / 2 - x) = cos x" by (simp add: sin_diff)
  show "cos (pi / 2 + x) = - sin x" by (simp add: cos_add)
  show "sin (pi / 2 + x) = cos x" by (simp add: sin_add)
  show "cos (pi - x) = - cos x" by (simp add: cos_diff)
  show "sin (pi - x) = sin x" by (simp add: sin_diff)
qed

lemma s8_less_c8: "sin (pi / 8) < cos (pi / 8)"
proof -
  have "sin (pi / 8) < sin (pi / 2 - pi / 8)"
    by (rule sin_monotone_2pi) (use pi_gt_zero in auto)
  then show ?thesis by (simp only: trig_shift)
qed

lemma c8_pos: "0 < cos (pi / 8)"
  using s8_pos s8_less_c8 by linarith

lemma P1: "cos (P 1) = cos (pi / 8)" "sin (P 1) = sin (pi / 8)"
  by (simp_all add: P_def)

lemma P3: "cos (P 3) = sin (pi / 8)" "sin (P 3) = cos (pi / 8)"
proof -
  have e: "P 3 = pi / 2 - pi / 8" by (simp add: P_def)
  show "cos (P 3) = sin (pi / 8)" "sin (P 3) = cos (pi / 8)" by (simp_all only: e trig_shift)
qed

lemma P5: "cos (P 5) = - sin (pi / 8)" "sin (P 5) = cos (pi / 8)"
proof -
  have e: "P 5 = pi / 2 + pi / 8" by (simp add: P_def)
  show "cos (P 5) = - sin (pi / 8)" "sin (P 5) = cos (pi / 8)" by (simp_all only: e trig_shift)
qed

lemma P7: "cos (P 7) = - cos (pi / 8)" "sin (P 7) = sin (pi / 8)"
proof -
  have e: "P 7 = pi - pi / 8" by (simp add: P_def)
  show "cos (P 7) = - cos (pi / 8)" "sin (P 7) = sin (pi / 8)" by (simp_all only: e trig_shift)
qed

lemma P_neg: "cos (P (- k)) = cos (P k)" "sin (P (- k)) = - sin (P k)"
  by (simp_all add: P_def)

lemmas P_vals = P_neg P1 P3 P5 P7

subsection \<open>The three signs of a triangle\<close>

text \<open>
  The three values that \<^verbatim>\<open>Tri::in\<close> compares add up to twice the signed area of the
  triangle. For a triangle of positive area they cannot all be negative, so the test
  holds exactly when none of them is negative: on the closed triangle, edges included.
\<close>

lemma Tri_sign_sum:
  "Tri_sign p a b + Tri_sign p b c + Tri_sign p c a = Tri_sign a b c"
  by (simp add: Tri_sign_def algebra_simps)

lemma Tri_in_closed:
  assumes "0 < Tri_sign (tri_a t) (tri_b t) (tri_c t)"
  shows "Tri_in t p \<longleftrightarrow>
           0 \<le> Tri_sign p (tri_a t) (tri_b t) \<and> 0 \<le> Tri_sign p (tri_b t) (tri_c t)
           \<and> 0 \<le> Tri_sign p (tri_c t) (tri_a t)"
  using assms Tri_sign_sum [of p "tri_a t" "tri_b t" "tri_c t"]
  by (auto simp: Tri_in_def Let_def)

lemma mkTri_signs:
  "Tri_sign p a (tri_b (mkTri a S rb rc)) =
     S * (cos (P rb) * (py p - py a) - sin (P rb) * (px p - px a))"
  "Tri_sign p (tri_c (mkTri a S rb rc)) a =
     S * (sin (P rc) * (px p - px a) - cos (P rc) * (py p - py a))"
  "Tri_sign p (tri_b (mkTri a S rb rc)) (tri_c (mkTri a S rb rc)) =
     S * ((px p - px a) * (sin (P rb) - sin (P rc)) - (py p - py a) * (cos (P rb) - cos (P rc)))
     + S * S * (cos (P rb) * sin (P rc) - sin (P rb) * cos (P rc))"
  by (simp_all add: Tri_sign_def mkTri_def Point_add_def Point_mul_def mkPoint_def algebra_simps)

lemma tri_a_mkTri [simp]: "tri_a (mkTri a S rb rc) = a"
  by (simp add: mkTri_def)

lemma segments_nth:
  "segments ! Suc 0 = mkTri seg_center seg_size 1 3"
  "segments ! 0 = mkTri seg_center seg_size (-1) 1"
  "segments ! 1 = mkTri seg_center seg_size 1 3"
  "segments ! 2 = mkTri seg_center seg_size 3 5"
  "segments ! 3 = mkTri seg_center seg_size 5 7"
  "segments ! 4 = mkTri seg_center seg_size 7 (-7)"
  "segments ! 5 = mkTri seg_center seg_size (-7) (-5)"
  "segments ! 6 = mkTri seg_center seg_size (-5) (-3)"
  "segments ! 7 = mkTri seg_center seg_size (-3) (-1)"
  by (simp_all add: segments_def)

lemma cs_prod_pos: "0 < cos (pi / 8) * sin (pi / 8)"
  using s8_pos c8_pos by simp

lemma cs_sq_less: "sin (pi / 8) * sin (pi / 8) < cos (pi / 8) * cos (pi / 8)"
  using s8_pos s8_less_c8 by (simp add: mult_strict_mono)

lemma seg_area_pos:
  "0 < Tri_sign (tri_a (segments ! 0)) (tri_b (segments ! 0)) (tri_c (segments ! 0))"
  "0 < Tri_sign (tri_a (segments ! 1)) (tri_b (segments ! 1)) (tri_c (segments ! 1))"
  "0 < Tri_sign (tri_a (segments ! 2)) (tri_b (segments ! 2)) (tri_c (segments ! 2))"
  "0 < Tri_sign (tri_a (segments ! 3)) (tri_b (segments ! 3)) (tri_c (segments ! 3))"
  "0 < Tri_sign (tri_a (segments ! 4)) (tri_b (segments ! 4)) (tri_c (segments ! 4))"
  "0 < Tri_sign (tri_a (segments ! 5)) (tri_b (segments ! 5)) (tri_c (segments ! 5))"
  "0 < Tri_sign (tri_a (segments ! 6)) (tri_b (segments ! 6)) (tri_c (segments ! 6))"
  "0 < Tri_sign (tri_a (segments ! 7)) (tri_b (segments ! 7)) (tri_c (segments ! 7))"
  using cs_prod_pos cs_sq_less
  by (simp_all add: segments_nth mkTri_signs P_vals seg_size_def)

subsection \<open>The eight sectors\<close>

text \<open>
  For each sector: its three signs at a point \<open>p\<close> in terms of the offset
  \<open>(dx, dy)\<close> of \<open>p\<close> from the anchor, the rim chord as a linear bound, and the
  membership test as two radial conditions and the chord bound.
\<close>

lemma seg0_signs:
  fixes p :: Point
  defines "dx \<equiv> px p - 0.82" and "dy \<equiv> py p - 0.82"
  shows "Tri_sign p (tri_a (segments ! 0)) (tri_b (segments ! 0)) = 13 / 100 * (cos (pi / 8) * dy + sin (pi / 8) * dx)"
    and "Tri_sign p (tri_b (segments ! 0)) (tri_c (segments ! 0)) =
           13 / 100 * ((2 * sin (pi / 8)) * (13 / 100 * cos (pi / 8) - dx))"
    and "Tri_sign p (tri_c (segments ! 0)) (tri_a (segments ! 0)) = - 13 / 100 * (cos (pi / 8) * dy - sin (pi / 8) * dx)"
  unfolding segments_nth dx_def dy_def
  by (simp_all add: mkTri_signs P_vals seg_size_def seg_center_def mkPoint_def field_simps)

lemma seg0_chord:
  fixes p :: Point
  defines "dx \<equiv> px p - 0.82" and "dy \<equiv> py p - 0.82"
  shows "0 \<le> Tri_sign p (tri_b (segments ! 0)) (tri_c (segments ! 0)) \<longleftrightarrow> dx \<le> 13 / 100 * cos (pi / 8)"
  unfolding seg0_signs dx_def dy_def
  using s8_pos s8_less_c8 by (auto simp: zero_le_mult_iff) (argo+)?

lemma seg0_in:
  fixes p :: Point
  defines "dx \<equiv> px p - 0.82" and "dy \<equiv> py p - 0.82"
  shows "Tri_in (segments ! 0) p \<longleftrightarrow>
     0 \<le> cos (pi / 8) * dy + sin (pi / 8) * dx \<and> cos (pi / 8) * dy - sin (pi / 8) * dx \<le> 0
     \<and> dx \<le> 13 / 100 * cos (pi / 8)"
proof -
  have pos: "0 \<le> 13 / 100 * x \<longleftrightarrow> 0 \<le> x" and neg: "0 \<le> - 13 / 100 * x \<longleftrightarrow> x \<le> 0" for x :: real
    by simp_all
  have "Tri_in (segments ! 0) p \<longleftrightarrow>
      0 \<le> Tri_sign p (tri_a (segments ! 0)) (tri_b (segments ! 0))
      \<and> 0 \<le> Tri_sign p (tri_b (segments ! 0)) (tri_c (segments ! 0))
      \<and> 0 \<le> Tri_sign p (tri_c (segments ! 0)) (tri_a (segments ! 0))"
    by (rule Tri_in_closed) (rule seg_area_pos)
  then show ?thesis
    unfolding seg0_chord unfolding seg0_signs pos neg dx_def dy_def by blast
qed

lemma seg1_signs:
  fixes p :: Point
  defines "dx \<equiv> px p - 0.82" and "dy \<equiv> py p - 0.82"
  shows "Tri_sign p (tri_a (segments ! 1)) (tri_b (segments ! 1)) = 13 / 100 * (cos (pi / 8) * dy - sin (pi / 8) * dx)"
    and "Tri_sign p (tri_b (segments ! 1)) (tri_c (segments ! 1)) =
           13 / 100 * ((cos (pi / 8) - sin (pi / 8)) * (13 / 100 * (cos (pi / 8) + sin (pi / 8)) - (dx + dy)))"
    and "Tri_sign p (tri_c (segments ! 1)) (tri_a (segments ! 1)) = - 13 / 100 * (sin (pi / 8) * dy - cos (pi / 8) * dx)"
  unfolding segments_nth dx_def dy_def
  by (simp_all add: mkTri_signs P_vals seg_size_def seg_center_def mkPoint_def field_simps)

lemma seg1_chord:
  fixes p :: Point
  defines "dx \<equiv> px p - 0.82" and "dy \<equiv> py p - 0.82"
  shows "0 \<le> Tri_sign p (tri_b (segments ! 1)) (tri_c (segments ! 1)) \<longleftrightarrow> dx + dy \<le> 13 / 100 * (cos (pi / 8) + sin (pi / 8))"
  unfolding seg1_signs dx_def dy_def
  using s8_pos s8_less_c8 by (auto simp: zero_le_mult_iff) (argo+)?

lemma seg1_in:
  fixes p :: Point
  defines "dx \<equiv> px p - 0.82" and "dy \<equiv> py p - 0.82"
  shows "Tri_in (segments ! 1) p \<longleftrightarrow>
     0 \<le> cos (pi / 8) * dy - sin (pi / 8) * dx \<and> sin (pi / 8) * dy - cos (pi / 8) * dx \<le> 0
     \<and> dx + dy \<le> 13 / 100 * (cos (pi / 8) + sin (pi / 8))"
proof -
  have pos: "0 \<le> 13 / 100 * x \<longleftrightarrow> 0 \<le> x" and neg: "0 \<le> - 13 / 100 * x \<longleftrightarrow> x \<le> 0" for x :: real
    by simp_all
  have "Tri_in (segments ! 1) p \<longleftrightarrow>
      0 \<le> Tri_sign p (tri_a (segments ! 1)) (tri_b (segments ! 1))
      \<and> 0 \<le> Tri_sign p (tri_b (segments ! 1)) (tri_c (segments ! 1))
      \<and> 0 \<le> Tri_sign p (tri_c (segments ! 1)) (tri_a (segments ! 1))"
    by (rule Tri_in_closed) (rule seg_area_pos)
  then show ?thesis
    unfolding seg1_chord unfolding seg1_signs pos neg dx_def dy_def by blast
qed

lemma seg2_signs:
  fixes p :: Point
  defines "dx \<equiv> px p - 0.82" and "dy \<equiv> py p - 0.82"
  shows "Tri_sign p (tri_a (segments ! 2)) (tri_b (segments ! 2)) = 13 / 100 * (sin (pi / 8) * dy - cos (pi / 8) * dx)"
    and "Tri_sign p (tri_b (segments ! 2)) (tri_c (segments ! 2)) =
           13 / 100 * ((2 * sin (pi / 8)) * (13 / 100 * cos (pi / 8) - dy))"
    and "Tri_sign p (tri_c (segments ! 2)) (tri_a (segments ! 2)) = - 13 / 100 * (- (sin (pi / 8) * dy) - cos (pi / 8) * dx)"
  unfolding segments_nth dx_def dy_def
  by (simp_all add: mkTri_signs P_vals seg_size_def seg_center_def mkPoint_def field_simps)

lemma seg2_chord:
  fixes p :: Point
  defines "dx \<equiv> px p - 0.82" and "dy \<equiv> py p - 0.82"
  shows "0 \<le> Tri_sign p (tri_b (segments ! 2)) (tri_c (segments ! 2)) \<longleftrightarrow> dy \<le> 13 / 100 * cos (pi / 8)"
  unfolding seg2_signs dx_def dy_def
  using s8_pos s8_less_c8 by (auto simp: zero_le_mult_iff) (argo+)?

lemma seg2_in:
  fixes p :: Point
  defines "dx \<equiv> px p - 0.82" and "dy \<equiv> py p - 0.82"
  shows "Tri_in (segments ! 2) p \<longleftrightarrow>
     0 \<le> sin (pi / 8) * dy - cos (pi / 8) * dx \<and> - (sin (pi / 8) * dy) - cos (pi / 8) * dx \<le> 0
     \<and> dy \<le> 13 / 100 * cos (pi / 8)"
proof -
  have pos: "0 \<le> 13 / 100 * x \<longleftrightarrow> 0 \<le> x" and neg: "0 \<le> - 13 / 100 * x \<longleftrightarrow> x \<le> 0" for x :: real
    by simp_all
  have "Tri_in (segments ! 2) p \<longleftrightarrow>
      0 \<le> Tri_sign p (tri_a (segments ! 2)) (tri_b (segments ! 2))
      \<and> 0 \<le> Tri_sign p (tri_b (segments ! 2)) (tri_c (segments ! 2))
      \<and> 0 \<le> Tri_sign p (tri_c (segments ! 2)) (tri_a (segments ! 2))"
    by (rule Tri_in_closed) (rule seg_area_pos)
  then show ?thesis
    unfolding seg2_chord unfolding seg2_signs pos neg dx_def dy_def by blast
qed

lemma seg3_signs:
  fixes p :: Point
  defines "dx \<equiv> px p - 0.82" and "dy \<equiv> py p - 0.82"
  shows "Tri_sign p (tri_a (segments ! 3)) (tri_b (segments ! 3)) = 13 / 100 * (- (sin (pi / 8) * dy) - cos (pi / 8) * dx)"
    and "Tri_sign p (tri_b (segments ! 3)) (tri_c (segments ! 3)) =
           13 / 100 * ((cos (pi / 8) - sin (pi / 8)) * (13 / 100 * (cos (pi / 8) + sin (pi / 8)) - (dy - dx)))"
    and "Tri_sign p (tri_c (segments ! 3)) (tri_a (segments ! 3)) = - 13 / 100 * (- (cos (pi / 8) * dy) - sin (pi / 8) * dx)"
  unfolding segments_nth dx_def dy_def
  by (simp_all add: mkTri_signs P_vals seg_size_def seg_center_def mkPoint_def field_simps)

lemma seg3_chord:
  fixes p :: Point
  defines "dx \<equiv> px p - 0.82" and "dy \<equiv> py p - 0.82"
  shows "0 \<le> Tri_sign p (tri_b (segments ! 3)) (tri_c (segments ! 3)) \<longleftrightarrow> dy - dx \<le> 13 / 100 * (cos (pi / 8) + sin (pi / 8))"
  unfolding seg3_signs dx_def dy_def
  using s8_pos s8_less_c8 by (auto simp: zero_le_mult_iff) (argo+)?

lemma seg3_in:
  fixes p :: Point
  defines "dx \<equiv> px p - 0.82" and "dy \<equiv> py p - 0.82"
  shows "Tri_in (segments ! 3) p \<longleftrightarrow>
     0 \<le> - (sin (pi / 8) * dy) - cos (pi / 8) * dx \<and> - (cos (pi / 8) * dy) - sin (pi / 8) * dx \<le> 0
     \<and> dy - dx \<le> 13 / 100 * (cos (pi / 8) + sin (pi / 8))"
proof -
  have pos: "0 \<le> 13 / 100 * x \<longleftrightarrow> 0 \<le> x" and neg: "0 \<le> - 13 / 100 * x \<longleftrightarrow> x \<le> 0" for x :: real
    by simp_all
  have "Tri_in (segments ! 3) p \<longleftrightarrow>
      0 \<le> Tri_sign p (tri_a (segments ! 3)) (tri_b (segments ! 3))
      \<and> 0 \<le> Tri_sign p (tri_b (segments ! 3)) (tri_c (segments ! 3))
      \<and> 0 \<le> Tri_sign p (tri_c (segments ! 3)) (tri_a (segments ! 3))"
    by (rule Tri_in_closed) (rule seg_area_pos)
  then show ?thesis
    unfolding seg3_chord unfolding seg3_signs pos neg dx_def dy_def by blast
qed

lemma seg4_signs:
  fixes p :: Point
  defines "dx \<equiv> px p - 0.82" and "dy \<equiv> py p - 0.82"
  shows "Tri_sign p (tri_a (segments ! 4)) (tri_b (segments ! 4)) = 13 / 100 * (- (cos (pi / 8) * dy) - sin (pi / 8) * dx)"
    and "Tri_sign p (tri_b (segments ! 4)) (tri_c (segments ! 4)) =
           13 / 100 * ((2 * sin (pi / 8)) * (13 / 100 * cos (pi / 8) + dx))"
    and "Tri_sign p (tri_c (segments ! 4)) (tri_a (segments ! 4)) = - 13 / 100 * (- (cos (pi / 8) * dy) + sin (pi / 8) * dx)"
  unfolding segments_nth dx_def dy_def
  by (simp_all add: mkTri_signs P_vals seg_size_def seg_center_def mkPoint_def field_simps)

lemma seg4_chord:
  fixes p :: Point
  defines "dx \<equiv> px p - 0.82" and "dy \<equiv> py p - 0.82"
  shows "0 \<le> Tri_sign p (tri_b (segments ! 4)) (tri_c (segments ! 4)) \<longleftrightarrow> - dx \<le> 13 / 100 * cos (pi / 8)"
  unfolding seg4_signs dx_def dy_def
  using s8_pos s8_less_c8 by (auto simp: zero_le_mult_iff) (argo+)?

lemma seg4_in:
  fixes p :: Point
  defines "dx \<equiv> px p - 0.82" and "dy \<equiv> py p - 0.82"
  shows "Tri_in (segments ! 4) p \<longleftrightarrow>
     0 \<le> - (cos (pi / 8) * dy) - sin (pi / 8) * dx \<and> - (cos (pi / 8) * dy) + sin (pi / 8) * dx \<le> 0
     \<and> - dx \<le> 13 / 100 * cos (pi / 8)"
proof -
  have pos: "0 \<le> 13 / 100 * x \<longleftrightarrow> 0 \<le> x" and neg: "0 \<le> - 13 / 100 * x \<longleftrightarrow> x \<le> 0" for x :: real
    by simp_all
  have "Tri_in (segments ! 4) p \<longleftrightarrow>
      0 \<le> Tri_sign p (tri_a (segments ! 4)) (tri_b (segments ! 4))
      \<and> 0 \<le> Tri_sign p (tri_b (segments ! 4)) (tri_c (segments ! 4))
      \<and> 0 \<le> Tri_sign p (tri_c (segments ! 4)) (tri_a (segments ! 4))"
    by (rule Tri_in_closed) (rule seg_area_pos)
  then show ?thesis
    unfolding seg4_chord unfolding seg4_signs pos neg dx_def dy_def by blast
qed

lemma seg5_signs:
  fixes p :: Point
  defines "dx \<equiv> px p - 0.82" and "dy \<equiv> py p - 0.82"
  shows "Tri_sign p (tri_a (segments ! 5)) (tri_b (segments ! 5)) = 13 / 100 * (- (cos (pi / 8) * dy) + sin (pi / 8) * dx)"
    and "Tri_sign p (tri_b (segments ! 5)) (tri_c (segments ! 5)) =
           13 / 100 * ((cos (pi / 8) - sin (pi / 8)) * (13 / 100 * (cos (pi / 8) + sin (pi / 8)) + (dx + dy)))"
    and "Tri_sign p (tri_c (segments ! 5)) (tri_a (segments ! 5)) = - 13 / 100 * (- (sin (pi / 8) * dy) + cos (pi / 8) * dx)"
  unfolding segments_nth dx_def dy_def
  by (simp_all add: mkTri_signs P_vals seg_size_def seg_center_def mkPoint_def field_simps)

lemma seg5_chord:
  fixes p :: Point
  defines "dx \<equiv> px p - 0.82" and "dy \<equiv> py p - 0.82"
  shows "0 \<le> Tri_sign p (tri_b (segments ! 5)) (tri_c (segments ! 5)) \<longleftrightarrow> - dx - dy \<le> 13 / 100 * (cos (pi / 8) + sin (pi / 8))"
  unfolding seg5_signs dx_def dy_def
  using s8_pos s8_less_c8 by (auto simp: zero_le_mult_iff) (argo+)?

lemma seg5_in:
  fixes p :: Point
  defines "dx \<equiv> px p - 0.82" and "dy \<equiv> py p - 0.82"
  shows "Tri_in (segments ! 5) p \<longleftrightarrow>
     0 \<le> - (cos (pi / 8) * dy) + sin (pi / 8) * dx \<and> - (sin (pi / 8) * dy) + cos (pi / 8) * dx \<le> 0
     \<and> - dx - dy \<le> 13 / 100 * (cos (pi / 8) + sin (pi / 8))"
proof -
  have pos: "0 \<le> 13 / 100 * x \<longleftrightarrow> 0 \<le> x" and neg: "0 \<le> - 13 / 100 * x \<longleftrightarrow> x \<le> 0" for x :: real
    by simp_all
  have "Tri_in (segments ! 5) p \<longleftrightarrow>
      0 \<le> Tri_sign p (tri_a (segments ! 5)) (tri_b (segments ! 5))
      \<and> 0 \<le> Tri_sign p (tri_b (segments ! 5)) (tri_c (segments ! 5))
      \<and> 0 \<le> Tri_sign p (tri_c (segments ! 5)) (tri_a (segments ! 5))"
    by (rule Tri_in_closed) (rule seg_area_pos)
  then show ?thesis
    unfolding seg5_chord unfolding seg5_signs pos neg dx_def dy_def by blast
qed

lemma seg6_signs:
  fixes p :: Point
  defines "dx \<equiv> px p - 0.82" and "dy \<equiv> py p - 0.82"
  shows "Tri_sign p (tri_a (segments ! 6)) (tri_b (segments ! 6)) = 13 / 100 * (- (sin (pi / 8) * dy) + cos (pi / 8) * dx)"
    and "Tri_sign p (tri_b (segments ! 6)) (tri_c (segments ! 6)) =
           13 / 100 * ((2 * sin (pi / 8)) * (13 / 100 * cos (pi / 8) + dy))"
    and "Tri_sign p (tri_c (segments ! 6)) (tri_a (segments ! 6)) = - 13 / 100 * (sin (pi / 8) * dy + cos (pi / 8) * dx)"
  unfolding segments_nth dx_def dy_def
  by (simp_all add: mkTri_signs P_vals seg_size_def seg_center_def mkPoint_def field_simps)

lemma seg6_chord:
  fixes p :: Point
  defines "dx \<equiv> px p - 0.82" and "dy \<equiv> py p - 0.82"
  shows "0 \<le> Tri_sign p (tri_b (segments ! 6)) (tri_c (segments ! 6)) \<longleftrightarrow> - dy \<le> 13 / 100 * cos (pi / 8)"
  unfolding seg6_signs dx_def dy_def
  using s8_pos s8_less_c8 by (auto simp: zero_le_mult_iff) (argo+)?

lemma seg6_in:
  fixes p :: Point
  defines "dx \<equiv> px p - 0.82" and "dy \<equiv> py p - 0.82"
  shows "Tri_in (segments ! 6) p \<longleftrightarrow>
     0 \<le> - (sin (pi / 8) * dy) + cos (pi / 8) * dx \<and> sin (pi / 8) * dy + cos (pi / 8) * dx \<le> 0
     \<and> - dy \<le> 13 / 100 * cos (pi / 8)"
proof -
  have pos: "0 \<le> 13 / 100 * x \<longleftrightarrow> 0 \<le> x" and neg: "0 \<le> - 13 / 100 * x \<longleftrightarrow> x \<le> 0" for x :: real
    by simp_all
  have "Tri_in (segments ! 6) p \<longleftrightarrow>
      0 \<le> Tri_sign p (tri_a (segments ! 6)) (tri_b (segments ! 6))
      \<and> 0 \<le> Tri_sign p (tri_b (segments ! 6)) (tri_c (segments ! 6))
      \<and> 0 \<le> Tri_sign p (tri_c (segments ! 6)) (tri_a (segments ! 6))"
    by (rule Tri_in_closed) (rule seg_area_pos)
  then show ?thesis
    unfolding seg6_chord unfolding seg6_signs pos neg dx_def dy_def by blast
qed

lemma seg7_signs:
  fixes p :: Point
  defines "dx \<equiv> px p - 0.82" and "dy \<equiv> py p - 0.82"
  shows "Tri_sign p (tri_a (segments ! 7)) (tri_b (segments ! 7)) = 13 / 100 * (sin (pi / 8) * dy + cos (pi / 8) * dx)"
    and "Tri_sign p (tri_b (segments ! 7)) (tri_c (segments ! 7)) =
           13 / 100 * ((cos (pi / 8) - sin (pi / 8)) * (13 / 100 * (cos (pi / 8) + sin (pi / 8)) - (dx - dy)))"
    and "Tri_sign p (tri_c (segments ! 7)) (tri_a (segments ! 7)) = - 13 / 100 * (cos (pi / 8) * dy + sin (pi / 8) * dx)"
  unfolding segments_nth dx_def dy_def
  by (simp_all add: mkTri_signs P_vals seg_size_def seg_center_def mkPoint_def field_simps)

lemma seg7_chord:
  fixes p :: Point
  defines "dx \<equiv> px p - 0.82" and "dy \<equiv> py p - 0.82"
  shows "0 \<le> Tri_sign p (tri_b (segments ! 7)) (tri_c (segments ! 7)) \<longleftrightarrow> dx - dy \<le> 13 / 100 * (cos (pi / 8) + sin (pi / 8))"
  unfolding seg7_signs dx_def dy_def
  using s8_pos s8_less_c8 by (auto simp: zero_le_mult_iff) (argo+)?

lemma seg7_in:
  fixes p :: Point
  defines "dx \<equiv> px p - 0.82" and "dy \<equiv> py p - 0.82"
  shows "Tri_in (segments ! 7) p \<longleftrightarrow>
     0 \<le> sin (pi / 8) * dy + cos (pi / 8) * dx \<and> cos (pi / 8) * dy + sin (pi / 8) * dx \<le> 0
     \<and> dx - dy \<le> 13 / 100 * (cos (pi / 8) + sin (pi / 8))"
proof -
  have pos: "0 \<le> 13 / 100 * x \<longleftrightarrow> 0 \<le> x" and neg: "0 \<le> - 13 / 100 * x \<longleftrightarrow> x \<le> 0" for x :: real
    by simp_all
  have "Tri_in (segments ! 7) p \<longleftrightarrow>
      0 \<le> Tri_sign p (tri_a (segments ! 7)) (tri_b (segments ! 7))
      \<and> 0 \<le> Tri_sign p (tri_b (segments ! 7)) (tri_c (segments ! 7))
      \<and> 0 \<le> Tri_sign p (tri_c (segments ! 7)) (tri_a (segments ! 7))"
    by (rule Tri_in_closed) (rule seg_area_pos)
  then show ?thesis
    unfolding seg7_chord unfolding seg7_signs pos neg dx_def dy_def by blast
qed

subsection \<open>All sectors at one point\<close>



subsection \<open>Between its radial boundaries a sector excludes the others\<close>




























subsection \<open>Two touch points inside the wheel\<close>

lemma c8_bound: "7 / 10 < cos (pi / 8)"
proof (rule ccontr)
  assume "\<not> 7 / 10 < cos (pi / 8)"
  then have le: "cos (pi / 8) \<le> 7 / 10" by simp
  have "cos (pi / 8) * cos (pi / 8) \<le> (7 / 10) * (7 / 10)"
    using le c8_pos by (intro mult_mono) simp_all
  moreover have "(sin (pi / 8))\<^sup>2 + (cos (pi / 8))\<^sup>2 = 1" by (rule sin_cos_squared_add)
  ultimately show False
    using cs_sq_less by (simp add: power2_eq_square)
qed

lemma right_point_in:
  "Tri_in (segments ! 0) right_point"
  "\<not> Tri_in (segments ! 1) right_point"
  "\<not> Tri_in (segments ! 2) right_point"
  "\<not> Tri_in (segments ! 3) right_point"
  "\<not> Tri_in (segments ! 4) right_point"
  "\<not> Tri_in (segments ! 5) right_point"
  "\<not> Tri_in (segments ! 6) right_point"
  "\<not> Tri_in (segments ! 7) right_point"
  using s8_pos c8_pos c8_bound
  by (simp_all add: seg0_in seg1_in seg2_in seg3_in seg4_in seg5_in seg6_in seg7_in
        right_point_def mkPoint_def del: One_nat_def)

lemma left_point_in:
  "\<not> Tri_in (segments ! 0) left_point"
  "\<not> Tri_in (segments ! 1) left_point"
  "\<not> Tri_in (segments ! 2) left_point"
  "\<not> Tri_in (segments ! 3) left_point"
  "Tri_in (segments ! 4) left_point"
  "\<not> Tri_in (segments ! 5) left_point"
  "\<not> Tri_in (segments ! 6) left_point"
  "\<not> Tri_in (segments ! 7) left_point"
  using s8_pos c8_pos c8_bound
  by (simp_all add: seg0_in seg1_in seg2_in seg3_in seg4_in seg5_in seg6_in seg7_in
        left_point_def mkPoint_def del: One_nat_def)

subsection \<open>Dispatching the two touch points\<close>

lemma Pad_press_loop_all:
  assumes "length pr = 8"
  shows "Pad_press_loop seg_count 0 p pr =
     [Tri_in (segments ! 0) p, Tri_in (segments ! 1) p, Tri_in (segments ! 2) p,
      Tri_in (segments ! 3) p, Tri_in (segments ! 4) p, Tri_in (segments ! 5) p,
      Tri_in (segments ! 6) p, Tri_in (segments ! 7) p]"
proof -
  from assms obtain a0 a1 a2 a3 a4 a5 a6 a7 where "pr = [a0, a1, a2, a3, a4, a5, a6, a7]"
    by (auto simp: eval_nat_numeral length_Suc_conv)
  then show ?thesis
    by (simp add: seg_count_def eval_nat_numeral)
qed

lemma vkeys_miss_left: "vkeys_loop vkeys 0 left_point inp = inp"
  by (simp add: vkeys_def Rect_point_in_def mkRect_def left_point_def mkPoint_def)

lemma vkeys_miss_right: "vkeys_loop vkeys 0 right_point inp = inp"
  by (simp add: vkeys_def Rect_point_in_def mkRect_def right_point_def mkPoint_def)

lemma touch_left:
  assumes "length (pressed s) = 8"
  shows "DefaultControl_update_buttons left_point s =
     s\<lparr>inputs := (inputs s)[0 := True, 1 := False, 2 := False, 3 := False],
       pressed := [False, False, False, False, True, False, False, False]\<rparr>"
proof -
  have r: "\<not> (px left_point - px seg_center) * (px left_point - px seg_center)
        + (py left_point - py seg_center) * (py left_point - py seg_center)
        > seg_size * seg_size"
    by (simp add: left_point_def seg_center_def seg_size_def mkPoint_def)
  show ?thesis
    using r assms
    by (simp add: DefaultControl_update_buttons_def VKeys_update_buttons_def vkeys_miss_left
          Pad_update_buttons_def Let_def Point_sub_def mkPoint_def Pad_press_loop_all
          left_point_in del: One_nat_def)
qed

lemma touch_right:
  assumes "length (pressed s) = 8"
  shows "DefaultControl_update_buttons right_point s =
     s\<lparr>inputs := (inputs s)[0 := False, 1 := True, 2 := False, 3 := False],
       pressed := [True, False, False, False, False, False, False, False]\<rparr>"
proof -
  have r: "\<not> (px right_point - px seg_center) * (px right_point - px seg_center)
        + (py right_point - py seg_center) * (py right_point - py seg_center)
        > seg_size * seg_size"
    by (simp add: right_point_def seg_center_def seg_size_def mkPoint_def)
  show ?thesis
    using r assms
    by (simp add: DefaultControl_update_buttons_def VKeys_update_buttons_def vkeys_miss_right
          Pad_update_buttons_def Let_def Point_sub_def mkPoint_def Pad_press_loop_all
          right_point_in del: One_nat_def)
qed

lemma inputs_eval:
  "(replicate INPUT_COUNT False)[0 := True, 1 := False, 2 := False, 3 := False]
     = (replicate INPUT_COUNT False)[0 := True]"
  "(replicate INPUT_COUNT False)[0 := False, 1 := True, 2 := False, 3 := False]
     = (replicate INPUT_COUNT False)[1 := True]"
  "(replicate INPUT_COUNT False)[0 := True, 0 := False, 1 := True, 2 := False, 3 := False]
     = (replicate INPUT_COUNT False)[1 := True]"
  "(replicate INPUT_COUNT False)[1 := True, 0 := True, 1 := False, 2 := False, 3 := False]
     = (replicate INPUT_COUNT False)[0 := True]"
  by (simp_all add: INPUT_COUNT_def eval_nat_numeral)

section \<open>Two fingers in the wheel\<close>

text \<open>
  C1 fails on the code. \<^verbatim>\<open>VKeys::update_buttons\<close> only ever sets a flag, but
  \<^verbatim>\<open>Pad::update_buttons\<close> assigns the four direction flags and the pressed array, so a
  finger inside the wheel overwrites what an earlier finger of the same tick has set
  there. With finger 1 on the left of the wheel and finger 2 on its right,
  \<^verbatim>\<open>ProcessInput\<close> ends with only the right flag (input 1) set, although finger 1
  alone sets the left flag (input 0); with the two identifiers exchanged it ends with
  only the left flag set.
\<close>

theorem C1_wheel_overwrite:
  "ProcessInput wheel_state =
     Inr (wheel_state\<lparr>inputs := (replicate INPUT_COUNT False)[1 := True],
                       pressed := (replicate seg_count False)[0 := True]\<rparr>)
 \<and> ProcessInput (wheel_state\<lparr>lastFingerPos := [(1, left_point)]\<rparr>) =
     Inr (wheel_state\<lparr>lastFingerPos := [(1, left_point)],
                       inputs := (replicate INPUT_COUNT False)[0 := True],
                       pressed := (replicate seg_count False)[4 := True]\<rparr>)
 \<and> ProcessInput (wheel_state\<lparr>lastFingerPos := [(2, right_point)]\<rparr>) =
     Inr (wheel_state\<lparr>lastFingerPos := [(2, right_point)],
                       inputs := (replicate INPUT_COUNT False)[1 := True],
                       pressed := (replicate seg_count False)[0 := True]\<rparr>)
 \<and> ProcessInput (wheel_state\<lparr>lastFingerPos := [(1, right_point), (2, left_point)]\<rparr>) =
     Inr (wheel_state\<lparr>lastFingerPos := [(1, right_point), (2, left_point)],
                       inputs := (replicate INPUT_COUNT False)[0 := True],
                       pressed := (replicate seg_count False)[4 := True]\<rparr>)"
proof -
  have p: "(replicate seg_count False)[0 := True]
             = [True, False, False, False, False, False, False, False]"
          "(replicate seg_count False)[4 := True]
             = [False, False, False, False, True, False, False, False]"
    by (simp_all add: seg_count_def eval_nat_numeral)
  show ?thesis
    unfolding p
    by (simp add: ProcessInput_def wheel_state_def initial_vjoy_def dispatch_def
          touch_left touch_right seg_count_def inputs_eval del: One_nat_def)
qed

section \<open>The sectors of the wheel\<close>



lemma outside_wheel_unchanged: "\<not> in_wheel p \<Longrightarrow> Pad_update_buttons p s = s"
  by (simp add: in_wheel_def Pad_update_buttons_def Let_def)







end
